theory Spec2Isabelle
  imports Main "HOL-Library.Sublist"
begin

section \<open>JavaScript strings\<close>

text \<open>
  A JavaScript string is a sequence of UTF-16 code units; the regular expressions of
  the monitor (no \<open>u\<close> flag) and \<open>includes\<close> work on code units. A string is
  modelled as the list of its code units, so that the CJK keywords of the
  configuration are ordinary strings. \<open>js\<close> embeds an ASCII literal.
\<close>

type_synonym jsstring = "nat list"

definition js :: "string \<Rightarrow> jsstring" where
  "js s = map of_char s"

text \<open>The character classes \<open>\d\<close>, \<open>\w\<close>, \<open>\s\<close> and the line terminators
  that \<open>.\<close> does not match.\<close>

definition is_digit :: "nat \<Rightarrow> bool" where
  "is_digit c \<longleftrightarrow> 48 \<le> c \<and> c \<le> 57"

definition is_word :: "nat \<Rightarrow> bool" where
  "is_word c \<longleftrightarrow> (97 \<le> c \<and> c \<le> 122) \<or> (65 \<le> c \<and> c \<le> 90) \<or> is_digit c \<or> c = 95"

definition is_line_terminator :: "nat \<Rightarrow> bool" where
  "is_line_terminator c \<longleftrightarrow> c = 10 \<or> c = 13 \<or> c = 8232 \<or> c = 8233"

definition is_space :: "nat \<Rightarrow> bool" where
  "is_space c \<longleftrightarrow>
     (9 \<le> c \<and> c \<le> 13) \<or> c = 32 \<or> c = 160 \<or> c = 5760 \<or> (8192 \<le> c \<and> c \<le> 8202) \<or>
     c = 8232 \<or> c = 8233 \<or> c = 8239 \<or> c = 8287 \<or> c = 12288 \<or> c = 65279"

text \<open>\<open>String.prototype.includes\<close>: the argument occurs as a contiguous run.\<close>

definition js_includes :: "jsstring \<Rightarrow> jsstring \<Rightarrow> bool" where
  "js_includes t k = sublist k t"

text \<open>\<open>String.prototype.trim\<close> removes white space and line terminators at both ends.\<close>

definition trim :: "jsstring \<Rightarrow> jsstring" where
  "trim s = rev (dropWhile is_space (rev (dropWhile is_space s)))"

text \<open>\<open>s.split(',')\<close>: the pieces between commas; the empty string gives one empty piece.\<close>

fun split_comma :: "jsstring \<Rightarrow> jsstring list" where
  "split_comma [] = [[]]"
| "split_comma (c # cs) =
     (if c = 44 then [] # split_comma cs
      else (case split_comma cs of [] \<Rightarrow> [[c]] | p # ps \<Rightarrow> (c # p) # ps))"

text \<open>
  \<open>String.prototype.toLowerCase\<close> belongs to the JavaScript runtime; the Unicode case
  tables it works with are not part of the repository. The functions of the monitor
  that call it take it as a parameter \<open>lc\<close>, the function from a string to its
  lower-cased form, and what is proved about them holds for every such function.
\<close>

type_synonym case_map = "jsstring \<Rightarrow> jsstring"

text \<open>
  What is known of it without the tables: a string of ASCII code units is lower-cased
  by folding the letters A to Z. \<open>asciiLower\<close> does this, and leaves every other code
  unit as it is; \<open>toLowerCase\<close> returns the same on every string whose code units
  outside ASCII have no lower-case form of their own (lower-case letters, CJK).
\<close>

definition lower_unit :: "nat \<Rightarrow> nat" where
  "lower_unit c = (if 65 \<le> c \<and> c \<le> 90 then c + 32 else c)"

definition asciiLower :: case_map where
  "asciiLower s = map lower_unit s"



text \<open>Decimal rendering of an integer, as \<open>String(n)\<close> and \<open>n.toString()\<close> give it
  for the integer identifiers of the backend (big integers included).\<close>

function decimal :: "nat \<Rightarrow> jsstring" where
  "decimal n = (if n < 10 then [48 + n] else decimal (n div 10) @ [48 + n mod 10])"
  by pat_completeness auto
termination
  by (relation "measure id") auto

declare decimal.simps [simp del]

definition int_toString :: "int \<Rightarrow> jsstring" where
  "int_toString n = (if n < 0 then 45 # decimal (nat (- n)) else decimal (nat n))"

section \<open>formatUtils: normalizeId\<close>

text \<open>
  The raw identifier is \<open>null\<close>/\<open>undefined\<close>, an integer or a string.
  \<open>normalizeId\<close> returns the empty string for the first, and otherwise removes all
  white space from \<open>String(raw)\<close> and replaces the match of
  \<^verbatim>\<open>/^(?:-?100|-)?(\d*)?.*/\<close> by its group 1. The match starts at 0; the optional
  prefix group takes \<open>-100\<close>, \<open>100\<close> or \<open>-\<close> in this order of preference (what
  follows it can match anything, so the first choice stands); group 1 is the digit
  run after it; \<open>.*\<close> runs up to the first line terminator, and whatever follows
  the match is kept by \<open>replace\<close>.
\<close>

datatype raw_id = RNull | RNum int | RStr jsstring

fun String_of :: "raw_id \<Rightarrow> jsstring" where
  "String_of RNull = js ''null''"
| "String_of (RNum n) = int_toString n"
| "String_of (RStr s) = s"

definition stripIdPrefix :: "jsstring \<Rightarrow> jsstring" where
  "stripIdPrefix s =
     (if prefix (js ''-100'') s then drop 4 s
      else if prefix (js ''100'') s then drop 3 s
      else if prefix (js ''-'') s then drop 1 s
      else s)"

definition normalizeId :: "raw_id \<Rightarrow> jsstring" where
  "normalizeId raw =
     (if raw = RNull then []
      else let str = filter (\<lambda>c. \<not> is_space c) (String_of raw);
               body = stripIdPrefix str
           in takeWhile is_digit body @
              dropWhile (\<lambda>c. \<not> is_line_terminator c) (dropWhile is_digit body))"

section \<open>Configuration: parseInt and the numeric settings\<close>

text \<open>
  \<open>parseInt(s)\<close> with no radix: leading white space is skipped, a sign is read, the
  prefix \<open>0x\<close>/\<open>0X\<close> selects radix 16, and the longest run of digits of the radix is
  the value; with no digit the result is \<open>NaN\<close>, here \<open>None\<close>. An unset
  environment variable is \<open>undefined\<close>, which parses to \<open>NaN\<close> as well. Values
  are exact integers (the source's doubles are, below \<open>2^53\<close>).
\<close>

definition digit_val :: "nat \<Rightarrow> nat" where
  "digit_val c = (if is_digit c then c - 48 else if 97 \<le> c \<and> c \<le> 122 then c - 87
                  else if 65 \<le> c \<and> c \<le> 90 then c - 55 else 36)"

definition radix_digit :: "nat \<Rightarrow> nat \<Rightarrow> bool" where
  "radix_digit r c \<longleftrightarrow> digit_val c < r"

definition parseInt :: "jsstring option \<Rightarrow> int option" where
  "parseInt v =
     (case v of
        None \<Rightarrow> None
      | Some s \<Rightarrow>
          let s1 = dropWhile is_space s;
              neg = prefix (js ''-'') s1;
              s2 = (if prefix (js ''-'') s1 \<or> prefix (js ''+'') s1 then drop 1 s1 else s1);
              hex = (prefix (js ''0x'') s2 \<or> prefix (js ''0X'') s2);
              r = (if hex then 16 else 10);
              s3 = (if hex then drop 2 s2 else s2);
              z = takeWhile (radix_digit r) s3
          in if z = [] then None
             else Some ((if neg then - 1 else 1) * int (foldl (\<lambda>a c. a * r + digit_val c) 0 z)))"

text \<open>\<open>x || d\<close> on a number: \<open>NaN\<close> and \<open>0\<close> are falsy.\<close>

definition num_or :: "int option \<Rightarrow> int \<Rightarrow> int" where
  "num_or x d = (case x of None \<Rightarrow> d | Some n \<Rightarrow> if n = 0 then d else n)"

text \<open>The environment variables the monitor reads (\<open>None\<close>: not set).\<close>

record environment =
  env_AUTO_DELETE_MINUTES :: "jsstring option"
  env_DEDUP_WINDOW_MINUTES :: "jsstring option"
  env_NOT_MONITOR_CHAT_IDS :: "jsstring option"
  env_DELETE_BATCH_SIZE :: "jsstring option"

text \<open>realtime-monitor.js: \<^verbatim>\<open>parseInt(process.env.AUTO_DELETE_MINUTES) || 10\<close> and
  \<^verbatim>\<open>parseInt(process.env.DEDUP_WINDOW_MINUTES) || Math.max(1, AUTO_DELETE_MINUTES)\<close>.
  The two checks that follow only print a warning; they assign nothing.\<close>

definition AUTO_DELETE_MINUTES :: "environment \<Rightarrow> int" where
  "AUTO_DELETE_MINUTES env = num_or (parseInt (env_AUTO_DELETE_MINUTES env)) 10"

definition DEDUP_WINDOW_MINUTES :: "environment \<Rightarrow> int" where
  "DEDUP_WINDOW_MINUTES env =
     num_or (parseInt (env_DEDUP_WINDOW_MINUTES env)) (max 1 (AUTO_DELETE_MINUTES env))"

text \<open>initializeMonitoring parses the number it is handed once more:
  \<^verbatim>\<open>parseInt(dedupWindowMinutes) || Math.max(1, autoDeleteMinutes)\<close>. This is the window
  the periodic cleanup is closed over.\<close>

definition effectiveDedupWindow :: "environment \<Rightarrow> int" where
  "effectiveDedupWindow env =
     num_or (parseInt (Some (int_toString (DEDUP_WINDOW_MINUTES env))))
            (max 1 (AUTO_DELETE_MINUTES env))"

text \<open>startMonitoring computes the period of the expiry sweep, and
  startAutoDeleteInterval installs the timer only for a positive period.\<close>

definition autoDeleteIntervalMs :: "environment \<Rightarrow> int" where
  "autoDeleteIntervalMs env =
     (if AUTO_DELETE_MINUTES env > 0 then max 1 (AUTO_DELETE_MINUTES env) * 60 * 1000 else 0)"

definition startAutoDeleteInterval :: "int \<Rightarrow> int option" where
  "startAutoDeleteInterval intervalMs = (if intervalMs \<noteq> 0 \<and> intervalMs > 0 then Some intervalMs else None)"

section \<open>The dedup store\<close>

text \<open>\<open>processedMessages\<close> is a \<open>Map\<close> from the dedup key to the time and text of the
  first acceptance. cleanupProcessedMessages deletes every entry older than the window.\<close>

record dedup_entry =
  ts :: int
  entry_text :: jsstring

type_synonym processed = "jsstring \<rightharpoonup> dedup_entry"

definition cleanupProcessedMessages :: "processed \<Rightarrow> int \<Rightarrow> int \<Rightarrow> processed" where
  "cleanupProcessedMessages pm dedupWindowMinutes now =
     (let ttl = dedupWindowMinutes * 60 * 1000
      in (\<lambda>key. case pm key of
                   None \<Rightarrow> None
                 | Some v \<Rightarrow> if now - ts v > ttl then None else Some v))"

section \<open>Messages, entities and the backend\<close>

text \<open>
  The fields of a message and of a chat entity that the monitor reads. Identifiers
  are the backend's big integers. \<open>msg_fromId\<close> is the value the monitor extracts
  as \<^verbatim>\<open>from?.userId?.value ?? from?.userId ?? from\<close>; \<open>msg_attachment\<close> says that one
  of photo, document, video, audio, voice or sticker is set; \<open>msg_service\<close> that
  the message is a \<open>MessageService\<close> or carries an action. An absent string
  field is the empty string.
\<close>

datatype class_name = User | Chat | Channel

record entity =
  ent_class :: class_name
  ent_broadcast :: bool
  ent_id :: int

record peer =
  peer_userId :: "int option"
  peer_chatId :: "int option"
  peer_channelId :: "int option"

record media =
  media_title :: jsstring
  media_caption :: jsstring

record message =
  msg_id :: int
  msg_peerId :: "peer option"
  msg_fromId :: raw_id
  msg_senderId :: "int option"
  msg_date :: int
  msg_message :: jsstring
  msg_caption :: jsstring
  msg_media :: "media option"
  msg_attachment :: bool
  msg_service :: bool

text \<open>
  The backend (Telegram client, Bot API over \<open>fetch\<close>, timers and the clock) is
  outside the program. Every call the program makes is appended to a trace, and the
  backend is an arbitrary function from the trace so far, the call included, to the
  response: since the trace grows with every call, any sequence of responses is such a
  function. A response of a shape the call site does not expect counts as a failed
  call. \<open>Http ok body_ok message_id\<close> is a Bot API answer: \<open>response.ok\<close>, the
  \<open>ok\<close> field of its JSON body, and \<open>result.message_id\<close>.
\<close>

datatype chat_ref = ByPeer peer | ByName jsstring | ByUser int

datatype call =
    GetMe
  | GetEntity chat_ref
  | GetInputEntity jsstring
  | GetDialogs
  | GetMessages entity nat
  | Search entity int int
  | DeleteMessages entity "int list"
  | SendMessage entity
  | BotDeleteMessage jsstring int
  | BotSendMessage jsstring
  | Sleep nat
  | DateNow

datatype response =
    Threw
  | Entity "entity option"
  | Dialogs "entity option list"
  | Messages "message option list"
  | Done
  | Sent "int option"
  | Http bool bool "int option"

type_synonym backend = "call list \<Rightarrow> response"

definition perform :: "backend \<Rightarrow> call list \<Rightarrow> call \<Rightarrow> response \<times> call list" where
  "perform orc tr c = (orc (tr @ [c]), tr @ [c])"

definition sleep :: "nat \<Rightarrow> call list \<Rightarrow> call list" where
  "sleep ms tr = tr @ [Sleep ms]"

section \<open>messageUtils\<close>

definition compareSenderId :: "int option \<Rightarrow> int option \<Rightarrow> bool" where
  "compareSenderId senderId targetId =
     (case (senderId, targetId) of (Some a, Some b) \<Rightarrow> a = b | _ \<Rightarrow> False)"

definition js_or :: "jsstring \<Rightarrow> jsstring \<Rightarrow> jsstring" where
  "js_or a b = (if a \<noteq> [] then a else b)"

definition extractMessageText :: "message \<Rightarrow> jsstring" where
  "extractMessageText m =
     js_or (msg_message m)
       (js_or (msg_caption m)
          (case msg_media m of
             None \<Rightarrow> []
           | Some md \<Rightarrow> js_or (media_title md) (media_caption md)))"

text \<open>The two placeholders, \<open>[\<close>media message\<open>]\<close> and \<open>[\<close>message without
  content\<open>]\<close> in Chinese.\<close>

definition mediaPlaceholder :: jsstring where
  "mediaPlaceholder = [91, 23186, 20307, 28040, 24687, 93]"

definition emptyPlaceholder :: jsstring where
  "emptyPlaceholder = [91, 26080, 20869, 23481, 28040, 24687, 93]"

definition displayText :: "message \<Rightarrow> jsstring" where
  "displayText m =
     (let t = extractMessageText m;
          hasMedia = (msg_media m \<noteq> None \<or> msg_attachment m)
      in if t = [] then (if hasMedia then mediaPlaceholder else emptyPlaceholder) else t)"

definition isDeletableMessage :: "message \<Rightarrow> bool" where
  "isDeletableMessage msg =
     (if msg_service msg then False else msg_message msg \<noteq> [] \<or> msg_media msg \<noteq> None)"

definition shouldDeletePreviousNotifications :: "jsstring \<Rightarrow> jsstring list \<Rightarrow> bool" where
  "shouldDeletePreviousNotifications messageText deleteNotificationKeywords =
     (if deleteNotificationKeywords = [] then False
      else list_ex (\<lambda>keyword. if 10 \<in> set keyword then js_includes messageText keyword
                              else js_includes messageText keyword)
             deleteNotificationKeywords)"

subsection \<open>State of the monitor\<close>

record state =
  processedMessages :: processed
  sentNotificationMessages :: "jsstring \<rightharpoonup> int list"
  trace :: "call list"

definition truthy :: "jsstring option \<Rightarrow> bool" where
  "truthy v = (case v of None \<Rightarrow> False | Some s \<Rightarrow> s \<noteq> [])"

subsection \<open>deletePreviousNotifications\<close>

text \<open>With a bot token every stored id is deleted by its own Bot API call; the count
  of successes is only logged.\<close>

fun botDeleteEach :: "backend \<Rightarrow> jsstring \<Rightarrow> int list \<Rightarrow> nat \<Rightarrow> call list \<Rightarrow> nat \<times> call list" where
  "botDeleteEach orc chat [] successCount tr = (successCount, tr)"
| "botDeleteEach orc chat (messageId # rest) successCount tr =
     (case perform orc tr (BotDeleteMessage chat messageId) of
        (Http True True _, tr1) \<Rightarrow> botDeleteEach orc chat rest (successCount + 1) tr1
      | (_, tr1) \<Rightarrow> botDeleteEach orc chat rest successCount tr1)"

fun clientDeleteEach :: "backend \<Rightarrow> entity \<Rightarrow> int list \<Rightarrow> nat \<Rightarrow> call list \<Rightarrow> nat \<times> call list" where
  "clientDeleteEach orc chatEntity [] successCount tr = (successCount, tr)"
| "clientDeleteEach orc chatEntity (messageId # rest) successCount tr =
     (case perform orc tr (DeleteMessages chatEntity [messageId]) of
        (Done, tr1) \<Rightarrow> clientDeleteEach orc chatEntity rest (successCount + 1) tr1
      | (_, tr1) \<Rightarrow> clientDeleteEach orc chatEntity rest successCount tr1)"

text \<open>\<open>getEntity\<close>, and \<open>getInputEntity\<close> when it throws. \<open>None\<close>: both threw;
  \<open>Some None\<close>: a falsy entity came back.\<close>

definition lookupEntity :: "backend \<Rightarrow> jsstring \<Rightarrow> call list \<Rightarrow> entity option option \<times> call list" where
  "lookupEntity orc name tr =
     (case perform orc tr (GetEntity (ByName name)) of
        (Entity e, tr1) \<Rightarrow> (Some e, tr1)
      | (_, tr1) \<Rightarrow>
          (case perform orc tr1 (GetInputEntity name) of
             (Entity e, tr2) \<Rightarrow> (Some e, tr2)
           | (_, tr2) \<Rightarrow> (None, tr2)))"

definition clientDelete :: "backend \<Rightarrow> jsstring \<Rightarrow> int list \<Rightarrow> call list \<Rightarrow> nat \<times> call list" where
  "clientDelete orc chat ids tr =
     (case lookupEntity orc chat tr of
        (Some (Some chatEntity), tr1) \<Rightarrow>
          (case perform orc tr1 (DeleteMessages chatEntity ids) of
             (Done, tr2) \<Rightarrow> (length ids, tr2)
           | (_, tr2) \<Rightarrow> clientDeleteEach orc chatEntity ids 0 tr2)
      | (_, tr1) \<Rightarrow> (0, tr1))"

definition deletePreviousNotifications ::
  "backend \<Rightarrow> jsstring \<Rightarrow> jsstring option \<Rightarrow> state \<Rightarrow> state" where
  "deletePreviousNotifications orc notificationChatId telegramBotToken st =
     (let chatNotificationMessages =
            (case sentNotificationMessages st notificationChatId of None \<Rightarrow> [] | Some l \<Rightarrow> l)
      in if chatNotificationMessages = [] then st
         else let (successCount, tr1) =
                    (if truthy telegramBotToken
                     then botDeleteEach orc notificationChatId chatNotificationMessages 0 (trace st)
                     else clientDelete orc notificationChatId chatNotificationMessages (trace st))
              in st\<lparr>trace := tr1,
                    sentNotificationMessages :=
                      (sentNotificationMessages st)(notificationChatId \<mapsto> [])\<rparr>)"

subsection \<open>Keyword matching\<close>

text \<open>
  \<open>matchKeyword\<close> in handleMessage. A keyword with a character outside \<open>\w\<close> and
  \<open>\s\<close>, or with white space, is looked up with \<open>includes\<close> in the lower-cased
  text. Any other keyword consists of word characters only, so escaping leaves it
  as it is and the test is \<^verbatim>\<open>/\bkeyword\b/i\<close>: an occurrence, compared up to case, with
  a word boundary on each side. Under the \<open>i\<close> flag two code units match when their
  canonical forms agree: that of an ASCII letter is its upper case, and that of a code
  unit outside ASCII is never an ASCII code unit. Against a keyword of word characters
  only the folding of a to z therefore decides.
\<close>

definition needsSubstring :: "jsstring \<Rightarrow> bool" where
  "needsSubstring keyword \<longleftrightarrow>
     list_ex (\<lambda>c. \<not> is_word c \<and> \<not> is_space c) keyword \<or> list_ex is_space keyword"

definition canonicalize :: "nat \<Rightarrow> nat" where
  "canonicalize c = (if 97 \<le> c \<and> c \<le> 122 then c - 32 else c)"

definition word_at :: "jsstring \<Rightarrow> int \<Rightarrow> bool" where
  "word_at t i \<longleftrightarrow> 0 \<le> i \<and> i < int (length t) \<and> is_word (t ! nat i)"

definition boundary :: "jsstring \<Rightarrow> nat \<Rightarrow> bool" where
  "boundary t i \<longleftrightarrow> word_at t (int i - 1) \<noteq> word_at t (int i)"

definition matches_at :: "jsstring \<Rightarrow> jsstring \<Rightarrow> nat \<Rightarrow> bool" where
  "matches_at t keyword i \<longleftrightarrow>
     i + length keyword \<le> length t \<and>
     boundary t i \<and>
     map canonicalize (take (length keyword) (drop i t)) = map canonicalize keyword \<and>
     boundary t (i + length keyword)"

definition wordRegexTest :: "jsstring \<Rightarrow> jsstring \<Rightarrow> bool" where
  "wordRegexTest t keyword = list_ex (matches_at t keyword) [0 ..< Suc (length t)]"

definition matchKeyword :: "jsstring \<Rightarrow> jsstring list \<Rightarrow> bool" where
  "matchKeyword textLower keywordList =
     list_ex (\<lambda>keyword. if needsSubstring keyword then js_includes textLower keyword
                         else wordRegexTest textLower keyword)
       keywordList"

subsection \<open>Monitor configuration\<close>

text \<open>The arguments of handleMessage that stay fixed for the life of the process.\<close>

record config =
  normalizedMonitorIds :: "jsstring list"
  monitorChatIds :: "jsstring list"
  targetUserIdsNormalized :: "jsstring list"
  userKeywordsNormalized :: "jsstring list"
  monitorKeywordsNormalized :: "jsstring list"
  SELF_USER_ID_NORMALIZED :: jsstring
  BOT_USER_ID_NORMALIZED :: jsstring
  NOTIFICATION_CHAT_ID :: "jsstring option"
  TELEGRAM_BOT_TOKEN :: "jsstring option"
  normalizedNotMonitorIds :: "jsstring list"
  deleteNotificationKeywords :: "jsstring list"

text \<open>initializeMonitoring builds them from the raw settings.\<close>

definition parseConfigList :: "jsstring option \<Rightarrow> jsstring list" where
  "parseConfigList rawConfig =
     (if truthy rawConfig
      then filter (\<lambda>item. item \<noteq> []) (map trim (split_comma (case rawConfig of None \<Rightarrow> [] | Some r \<Rightarrow> r)))
      else [])"

record raw_config =
  monitorChatIdsRaw :: "jsstring option"
  notMonitorChatIdsRaw :: "jsstring option"
  monitorKeywordsRaw :: "jsstring option"
  targetUserIdsRaw :: "jsstring option"
  userKeywordsRaw :: "jsstring option"
  notificationChatId :: "jsstring option"
  telegramBotToken :: "jsstring option"
  deleteNotificationKeywordsRaw :: "jsstring option"

definition normalizeIds :: "jsstring list \<Rightarrow> jsstring list" where
  "normalizeIds ids = filter (\<lambda>i. i \<noteq> []) (map (\<lambda>i. normalizeId (RStr i)) ids)"

definition normalizeKeywords :: "case_map \<Rightarrow> jsstring list \<Rightarrow> jsstring list" where
  "normalizeKeywords lc ks = filter (\<lambda>k. k \<noteq> []) (map lc ks)"

definition initializeMonitoring ::
  "case_map \<Rightarrow> raw_config \<Rightarrow> jsstring \<Rightarrow> jsstring \<Rightarrow> config" where
  "initializeMonitoring lc rc selfId botId =
     \<lparr> normalizedMonitorIds = normalizeIds (parseConfigList (monitorChatIdsRaw rc)),
       monitorChatIds = parseConfigList (monitorChatIdsRaw rc),
       targetUserIdsNormalized = normalizeIds (parseConfigList (targetUserIdsRaw rc)),
       userKeywordsNormalized = normalizeKeywords lc (parseConfigList (userKeywordsRaw rc)),
       monitorKeywordsNormalized = normalizeKeywords lc (parseConfigList (monitorKeywordsRaw rc)),
       SELF_USER_ID_NORMALIZED = selfId,
       BOT_USER_ID_NORMALIZED = botId,
       NOTIFICATION_CHAT_ID = notificationChatId rc,
       TELEGRAM_BOT_TOKEN = telegramBotToken rc,
       normalizedNotMonitorIds = normalizeIds (parseConfigList (notMonitorChatIdsRaw rc)),
       deleteNotificationKeywords = parseConfigList (deleteNotificationKeywordsRaw rc) \<rparr>"

section \<open>telegramUtil: sendNotification\<close>

text \<open>
  The notification text (chat title, lottery fields, HTML escaping) is built without
  any effect and does not decide whether or where a notification goes; it is left
  out. With a bot token every target gets one \<open>fetchWithRetry\<close> (its three attempts
  are one call here) and the sends, concurrent in the source, are taken in the order
  of the targets; without a token the client resolves the target and sends. Each
  message id that comes back is appended to the target's list.
\<close>

definition recordSent :: "jsstring \<Rightarrow> int \<Rightarrow> state \<Rightarrow> state" where
  "recordSent target mid st =
     st\<lparr>sentNotificationMessages :=
          (sentNotificationMessages st)
            (target \<mapsto> (case sentNotificationMessages st target of None \<Rightarrow> [] | Some l \<Rightarrow> l) @ [mid])\<rparr>"

fun botSendAll :: "backend \<Rightarrow> jsstring list \<Rightarrow> nat \<Rightarrow> state \<Rightarrow> nat \<times> state" where
  "botSendAll orc [] successCount st = (successCount, st)"
| "botSendAll orc (targetChatId # rest) successCount st =
     (case perform orc (trace st) (BotSendMessage targetChatId) of
        (Http True body_ok mid, tr1) \<Rightarrow>
          (let st1 = st\<lparr>trace := tr1\<rparr>;
               st2 = (case mid of
                        Some i \<Rightarrow> if body_ok \<and> i \<noteq> 0 then recordSent targetChatId i st1 else st1
                      | None \<Rightarrow> st1)
           in botSendAll orc rest (successCount + 1) st2)
      | (_, tr1) \<Rightarrow> botSendAll orc rest successCount (st\<lparr>trace := tr1\<rparr>))"

fun clientSendAll :: "backend \<Rightarrow> jsstring list \<Rightarrow> nat \<Rightarrow> state \<Rightarrow> nat \<times> state" where
  "clientSendAll orc [] successCount st = (successCount, st)"
| "clientSendAll orc (targetChatId # rest) successCount st =
     (case lookupEntity orc targetChatId (trace st) of
        (Some (Some targetChat), tr1) \<Rightarrow>
          (case perform orc tr1 (SendMessage targetChat) of
             (Sent (Some i), tr2) \<Rightarrow>
               (if i \<noteq> 0
                then clientSendAll orc rest (successCount + 1)
                       (recordSent targetChatId i (st\<lparr>trace := tr2\<rparr>))
                else clientSendAll orc rest successCount (st\<lparr>trace := tr2\<rparr>))
           | (_, tr2) \<Rightarrow> clientSendAll orc rest successCount (st\<lparr>trace := tr2\<rparr>))
      | (_, tr1) \<Rightarrow> clientSendAll orc rest successCount (st\<lparr>trace := tr1\<rparr>))"

definition sendNotification :: "backend \<Rightarrow> config \<Rightarrow> state \<Rightarrow> bool \<times> state" where
  "sendNotification orc cfg st =
     (if \<not> truthy (NOTIFICATION_CHAT_ID cfg) then (False, st)
      else let chatIds = map trim (split_comma (case NOTIFICATION_CHAT_ID cfg of None \<Rightarrow> [] | Some r \<Rightarrow> r));
               (successCount, st1) =
                 (if truthy (TELEGRAM_BOT_TOKEN cfg) then botSendAll orc chatIds 0 st
                  else clientSendAll orc chatIds 0 st)
           in (successCount > 0, st1))"

section \<open>messageUtils: handleMessage\<close>

datatype outcome =
    SkipPrivate
  | SkipBroadcast
  | SkipDenied
  | SkipRetracted
  | SkipOwnBot
  | SkipOwnSelf
  | SkipNotMonitored
  | SkipEmpty
  | SkipNoMatch
  | SkipDuplicate
  | Notified bool
  | TypeError

text \<open>Step 2: the chat entity and the chat id. \<open>None\<close> is the return on a read-only
  channel; otherwise the entity (when it was resolved) and the raw chat id.\<close>

definition peerChatId :: "peer \<Rightarrow> raw_id" where
  "peerChatId p =
     (case peer_channelId p of
        Some c \<Rightarrow> RStr (js ''-100'' @ int_toString c)
      | None \<Rightarrow>
          (case peer_chatId p of
             Some c \<Rightarrow> RStr (js ''-'' @ int_toString c)
           | None \<Rightarrow>
               (case peer_userId p of
                  Some u \<Rightarrow> RStr (int_toString u)
                | None \<Rightarrow> RNull)))"

definition resolveChat ::
  "backend \<Rightarrow> message \<Rightarrow> call list \<Rightarrow> (entity option \<times> raw_id) option \<times> call list" where
  "resolveChat orc m tr =
     (case msg_peerId m of
        None \<Rightarrow> (Some (None, RNull), tr)
      | Some p \<Rightarrow>
          (case perform orc tr (GetEntity (ByPeer p)) of
             (Entity (Some chat), tr1) \<Rightarrow>
               (if ent_class chat = Channel \<and> ent_broadcast chat then (None, tr1)
                else (Some (Some chat, RStr (int_toString (ent_id chat))), tr1))
           | (_, tr1) \<Rightarrow> (Some (None, peerChatId p), tr1)))"

text \<open>The retraction loop over \<^verbatim>\<open>NOTIFICATION_CHAT_ID.split(',')\<close>; with the setting
  undefined the \<open>split\<close> raises a TypeError (\<open>None\<close>) before anything is deleted.\<close>

definition retractAll :: "backend \<Rightarrow> config \<Rightarrow> state \<Rightarrow> state option" where
  "retractAll orc cfg st =
     (case NOTIFICATION_CHAT_ID cfg of
        None \<Rightarrow> None
      | Some s \<Rightarrow>
          Some (foldl (\<lambda>st' chatId. deletePreviousNotifications orc chatId (TELEGRAM_BOT_TOKEN cfg) st')
                  st (map trim (split_comma s))))"

text \<open>Step 4, taken when the chat is the notification chat: \<open>Some\<close> is a return.\<close>

definition inNotificationChat ::
  "backend \<Rightarrow> config \<Rightarrow> message \<Rightarrow> jsstring \<Rightarrow> jsstring \<Rightarrow> state \<Rightarrow> outcome option \<times> state" where
  "inNotificationChat orc cfg m normalizedChatId normalizedSenderId st =
     (let retracted =
            (if deleteNotificationKeywords cfg \<noteq> [] \<and>
                shouldDeletePreviousNotifications (displayText m) (deleteNotificationKeywords cfg)
             then (case retractAll orc cfg st of
                     None \<Rightarrow> (Some TypeError, st)
                   | Some st1 \<Rightarrow>
                       (let isMonitored =
                              (normalizedMonitorIds cfg = [] \<or>
                               (normalizedChatId \<noteq> [] \<and> normalizedChatId \<in> set (normalizedMonitorIds cfg)))
                        in if isMonitored then (Some SkipRetracted, st1) else (None, st1)))
             else (None, st))
      in case retracted of
           (Some out, st1) \<Rightarrow> (Some out, st1)
         | (None, st1) \<Rightarrow>
             (if normalizedSenderId \<noteq> [] \<and> BOT_USER_ID_NORMALIZED cfg \<noteq> [] \<and>
                 normalizedSenderId = BOT_USER_ID_NORMALIZED cfg
              then (Some SkipOwnBot, st1)
              else if normalizedSenderId \<noteq> [] \<and> normalizedSenderId = SELF_USER_ID_NORMALIZED cfg
              then (Some SkipOwnSelf, st1)
              else (None, st1)))"

text \<open>Steps 5 and 6: the allow-list and the group-migration fallback. The result is
  the final value of \<open>isMonitored\<close>; \<open>False\<close> is one of the two returns.\<close>

definition monitoredChat :: "config \<Rightarrow> message \<Rightarrow> jsstring \<Rightarrow> bool" where
  "monitoredChat cfg m normalizedChatId =
     (let isMonitored =
            (normalizedMonitorIds cfg = [] \<or>
             (normalizedChatId \<noteq> [] \<and> normalizedChatId \<in> set (normalizedMonitorIds cfg)))
      in if monitorChatIds cfg \<noteq> [] \<and> \<not> isMonitored then False
         else if \<not> isMonitored
         then (case msg_peerId m of
                 None \<Rightarrow> False
               | Some p \<Rightarrow>
                   (case (peer_chatId p, peer_channelId p) of
                      (Some oldChat, Some _) \<Rightarrow>
                        normalizeId (RStr (js ''-'' @ int_toString oldChat)) \<in> set (normalizedMonitorIds cfg)
                    | _ \<Rightarrow> False))
         else True)"

text \<open>The keyword decision.\<close>

definition shouldProcessMessage ::
  "case_map \<Rightarrow> config \<Rightarrow> jsstring \<Rightarrow> jsstring \<Rightarrow> bool" where
  "shouldProcessMessage lc cfg normalizedSenderId text =
     (let textLower = lc text;
          isTargetUser = (normalizedSenderId \<noteq> [] \<and> targetUserIdsNormalized cfg \<noteq> [] \<and>
                          normalizedSenderId \<in> set (targetUserIdsNormalized cfg));
          hasUserKeyword = (userKeywordsNormalized cfg \<noteq> [] \<and>
                            matchKeyword textLower (userKeywordsNormalized cfg));
          hasMonitorKeyword = (monitorKeywordsNormalized cfg \<noteq> [] \<and>
                               matchKeyword textLower (monitorKeywordsNormalized cfg))
      in if isTargetUser \<and> (userKeywordsNormalized cfg = [] \<or> hasUserKeyword) then True
         else if hasMonitorKeyword then True
         else monitorKeywordsNormalized cfg = [] \<and> userKeywordsNormalized cfg = [])"

text \<open>The retraction check of a monitored chat.\<close>

definition retractInMonitoredChat ::
  "backend \<Rightarrow> config \<Rightarrow> jsstring \<Rightarrow> jsstring \<Rightarrow> state \<Rightarrow> state option" where
  "retractInMonitoredChat orc cfg normalizedSenderId text st =
     (if deleteNotificationKeywords cfg \<noteq> []
      then (let shouldCheckDeleteKeyword =
                  (targetUserIdsNormalized cfg = [] \<or>
                   (normalizedSenderId \<noteq> [] \<and> normalizedSenderId \<in> set (targetUserIdsNormalized cfg)))
            in if shouldCheckDeleteKeyword \<and>
                  shouldDeletePreviousNotifications text (deleteNotificationKeywords cfg)
               then retractAll orc cfg st
               else Some st)
      else Some st)"

text \<open>handleMessage up to the keyword decision: a return, or the normalized chat id
  and the display text with which the dedup step is entered. Console output and the
  chat title, which is only printed, are left out.\<close>

datatype stage = Stop outcome | Pass jsstring jsstring

definition admit ::
  "case_map \<Rightarrow> backend \<Rightarrow> config \<Rightarrow> message \<Rightarrow> state \<Rightarrow> stage \<times> state" where
  "admit lc orc cfg m st =
     (if (case msg_peerId m of None \<Rightarrow> False | Some p \<Rightarrow> peer_userId p \<noteq> None)
      then (Stop SkipPrivate, st)
      else
        (case resolveChat orc m (trace st) of
           (None, tr1) \<Rightarrow> (Stop SkipBroadcast, st\<lparr>trace := tr1\<rparr>)
         | (Some (chat, chatId), tr1) \<Rightarrow>
             (let st1 = st\<lparr>trace := tr1\<rparr>;
                  normalizedChatId = normalizeId chatId;
                  normalizedNotifChatId =
                    normalizeId (case NOTIFICATION_CHAT_ID cfg of None \<Rightarrow> RNull | Some s \<Rightarrow> RStr s);
                  normalizedSenderId = normalizeId (msg_fromId m)
              in if normalizedChatId \<in> set (normalizedNotMonitorIds cfg) then (Stop SkipDenied, st1)
                 else
                   (case (if normalizedChatId = normalizedNotifChatId
                          then inNotificationChat orc cfg m normalizedChatId normalizedSenderId st1
                          else (None, st1)) of
                      (Some out, st2) \<Rightarrow> (Stop out, st2)
                    | (None, st2) \<Rightarrow>
                        (if \<not> monitoredChat cfg m normalizedChatId then (Stop SkipNotMonitored, st2)
                         else if displayText m = [] then (Stop SkipEmpty, st2)
                         else
                           (case retractInMonitoredChat orc cfg normalizedSenderId (displayText m) st2 of
                              None \<Rightarrow> (Stop TypeError, st2)
                            | Some st3 \<Rightarrow>
                                (if shouldProcessMessage lc cfg normalizedSenderId (displayText m)
                                 then (Pass normalizedChatId (displayText m), st3)
                                 else (Stop SkipNoMatch, st3))))))))"

definition dedupKey :: "jsstring \<Rightarrow> message \<Rightarrow> jsstring" where
  "dedupKey normalizedChatId m = normalizedChatId @ js '':'' @ int_toString (msg_id m)"

text \<open>handleMessage; \<open>now\<close> is the reading of \<open>Date.now()\<close> at the dedup step.\<close>

definition handleMessage ::
  "case_map \<Rightarrow> backend \<Rightarrow> int \<Rightarrow> config \<Rightarrow> message \<Rightarrow> state \<Rightarrow> outcome \<times> state" where
  "handleMessage lc orc now cfg m st =
     (case admit lc orc cfg m st of
        (Stop out, st1) \<Rightarrow> (out, st1)
      | (Pass normalizedChatId text, st1) \<Rightarrow>
          (let key = dedupKey normalizedChatId m
           in if processedMessages st1 key \<noteq> None then (SkipDuplicate, st1)
              else
                (let st2 = st1\<lparr>processedMessages :=
                                (processedMessages st1)(key \<mapsto> \<lparr>ts = now, entry_text = text\<rparr>)\<rparr>;
                     (notificationResult, st3) = sendNotification orc cfg st2
                 in (Notified notificationResult, st3))))"

section \<open>The running monitor\<close>

text \<open>
  What happens to the monitor's state over time: a message arrives and is handled,
  the cleanup timer fires, or another component (heartbeat, expiry sweep) calls the
  backend. Each event carries the reading of the clock at which it happens.
\<close>

datatype event = Arrive message | Cleanup | Other "call list"

definition step ::
  "case_map \<Rightarrow> backend \<Rightarrow> config \<Rightarrow> int \<Rightarrow> int \<times> event \<Rightarrow> state \<Rightarrow> state" where
  "step lc orc cfg window te st =
     (case snd te of
        Arrive m \<Rightarrow> snd (handleMessage lc orc (fst te) cfg m st)
      | Cleanup \<Rightarrow>
          st\<lparr>processedMessages := cleanupProcessedMessages (processedMessages st) window (fst te)\<rparr>
      | Other cs \<Rightarrow> st\<lparr>trace := trace st @ cs\<rparr>)"

definition run ::
  "case_map \<Rightarrow> backend \<Rightarrow> config \<Rightarrow> int \<Rightarrow> (int \<times> event) list \<Rightarrow> state \<Rightarrow> state" where
  "run lc orc cfg window evs st = foldl (\<lambda>s te. step lc orc cfg window te s) st evs"

text \<open>The fingerprint of a message: the dedup key with which handleMessage enters
  its dedup step, if the message gets that far.\<close>

definition fingerprint ::
  "case_map \<Rightarrow> backend \<Rightarrow> config \<Rightarrow> message \<Rightarrow> state \<Rightarrow> jsstring option" where
  "fingerprint lc orc cfg m st =
     (case fst (admit lc orc cfg m st) of
        Stop out \<Rightarrow> None
      | Pass normalizedChatId text \<Rightarrow> Some (dedupKey normalizedChatId m))"

section \<open>message-deleter: deleteExpiredMessages\<close>

text \<open>The clock is read through the trace as well: \<open>Date.now()\<close> returns what the
  clock shows after the calls made so far and leaves a \<open>DateNow\<close> in the trace, so
  that two readings in a row may differ.\<close>

type_synonym clock = "call list \<Rightarrow> int"

definition dateNow :: "clock \<Rightarrow> call list \<Rightarrow> int \<times> call list" where
  "dateNow clk tr = (clk tr, tr @ [DateNow])"

text \<open>formatUtils.parseChatIds, without the numeric validation (its default).\<close>

definition parseChatIds :: "jsstring option \<Rightarrow> jsstring list" where
  "parseChatIds chatIds =
     (if \<not> truthy chatIds then []
      else map (\<lambda>i. if prefix (js ''-100'') i then drop 4 i else i)
             (filter (\<lambda>i. i \<noteq> [])
                (map trim (split_comma (case chatIds of None \<Rightarrow> [] | Some r \<Rightarrow> r)))))"

subsection \<open>The recent pass\<close>

text \<open>The loop of getRecentMessagesRealtime over the newest messages; elements may
  be null. \<open>break\<close> returns what has been collected so far.\<close>

fun recentLoop ::
  "clock \<Rightarrow> int option \<Rightarrow> int \<Rightarrow> message option list \<Rightarrow> call list \<Rightarrow> message list \<times> call list" where
  "recentLoop clk myUserId cutoffTime [] tr = ([], tr)"
| "recentLoop clk myUserId cutoffTime (None # rest) tr = recentLoop clk myUserId cutoffTime rest tr"
| "recentLoop clk myUserId cutoffTime (Some msg # rest) tr =
     (let (now, tr1) = dateNow clk tr
      in if msg_date msg < now div 1000 - 600 then ([], tr1)
         else if \<not> isDeletableMessage msg then recentLoop clk myUserId cutoffTime rest tr1
         else if compareSenderId (msg_senderId msg) myUserId \<and> msg_date msg < cutoffTime
         then (let (found, tr2) = recentLoop clk myUserId cutoffTime rest tr1 in (msg # found, tr2))
         else recentLoop clk myUserId cutoffTime rest tr1)"

definition RECENT_LIMIT :: nat where
  "RECENT_LIMIT = 200"

definition getRecentMessagesRealtime ::
  "clock \<Rightarrow> backend \<Rightarrow> entity \<Rightarrow> int option \<Rightarrow> int \<Rightarrow> call list \<Rightarrow> message list \<times> call list" where
  "getRecentMessagesRealtime clk orc chat myUserId cutoffTime tr =
     (case perform orc tr (GetMessages chat RECENT_LIMIT) of
        (Messages messages, tr1) \<Rightarrow> recentLoop clk myUserId cutoffTime messages tr1
      | (_, tr1) \<Rightarrow> ([], tr1))"

subsection \<open>The historical pass\<close>

text \<open>At most ten pages of a hundred messages; the search is filtered to the own
  account and bounded by \<open>searchMaxDate\<close> on the server. A failing page discards
  the pages before it (\<open>None\<close>).\<close>

fun searchLoop ::
  "backend \<Rightarrow> entity \<Rightarrow> int \<Rightarrow> int \<Rightarrow> nat \<Rightarrow> int \<Rightarrow> message list \<Rightarrow> call list \<Rightarrow>
   message list option \<times> call list" where
  "searchLoop orc chat cutoffTime searchMaxDate 0 offsetId olderMessages tr = (Some olderMessages, tr)"
| "searchLoop orc chat cutoffTime searchMaxDate (Suc pagesLeft) offsetId olderMessages tr =
     (case perform orc tr (Search chat searchMaxDate offsetId) of
        (Messages messages, tr1) \<Rightarrow>
          (if messages = [] then (Some olderMessages, tr1)
           else
             (let expiredOnes =
                    concat (map (\<lambda>mo. case mo of
                                         None \<Rightarrow> []
                                       | Some msg \<Rightarrow>
                                           if isDeletableMessage msg \<and> msg_date msg < cutoffTime
                                           then [msg] else [])
                              messages);
                  nextOffset = (case last messages of None \<Rightarrow> 0 | Some msg \<Rightarrow> msg_id msg)
              in if length messages < 100 then (Some (olderMessages @ expiredOnes), tr1)
                 else searchLoop orc chat cutoffTime searchMaxDate pagesLeft nextOffset
                        (olderMessages @ expiredOnes) (sleep 200 tr1)))
      | (_, tr1) \<Rightarrow> (None, tr1))"

definition searchOlderMessages ::
  "clock \<Rightarrow> backend \<Rightarrow> entity \<Rightarrow> int \<Rightarrow> call list \<Rightarrow> message list \<times> call list" where
  "searchOlderMessages clk orc chat cutoffTime tr =
     (let (now, tr1) = dateNow clk tr;
          searchMaxDate = now div 1000 - 600
      in case searchLoop orc chat cutoffTime searchMaxDate 10 0 [] tr1 of
           (Some found, tr2) \<Rightarrow> (found, tr2)
         | (None, tr2) \<Rightarrow> ([], tr2))"

subsection \<open>safeDeleteMessages\<close>

fun deleteEach ::
  "backend \<Rightarrow> entity \<Rightarrow> int list \<Rightarrow> nat \<Rightarrow> nat \<Rightarrow> call list \<Rightarrow> (nat \<times> nat) \<times> call list" where
  "deleteEach orc chat [] deleted failed tr = ((deleted, failed), tr)"
| "deleteEach orc chat (i # ids) deleted failed tr =
     (case perform orc tr (DeleteMessages chat [i]) of
        (Done, tr1) \<Rightarrow> deleteEach orc chat ids (deleted + 1) failed (sleep 120 tr1)
      | (_, tr1) \<Rightarrow> deleteEach orc chat ids deleted (failed + 1) (sleep 120 tr1))"

definition safeDeleteMessages ::
  "backend \<Rightarrow> entity \<Rightarrow> int list \<Rightarrow> call list \<Rightarrow> (nat \<times> nat) \<times> call list" where
  "safeDeleteMessages orc chat ids tr =
     (case perform orc tr (DeleteMessages chat ids) of
        (Done, tr1) \<Rightarrow> ((length ids, 0), tr1)
      | (_, tr1) \<Rightarrow> deleteEach orc chat ids 0 0 tr1)"

subsection \<open>The sweep\<close>

text \<open>Merging the two passes, the first message of each id first.\<close>

definition mergeById :: "message list \<Rightarrow> message list" where
  "mergeById ms =
     foldl (\<lambda>acc msg. if msg_id msg \<in> set (map msg_id acc) then acc else acc @ [msg]) [] ms"

text \<open>One scan task. The two passes of a chat, and the tasks of a batch of chats,
  run concurrently in the source; here they run one after the other.\<close>

definition scanChat ::
  "clock \<Rightarrow> backend \<Rightarrow> int \<Rightarrow> int \<Rightarrow> entity \<Rightarrow> call list \<Rightarrow> (entity \<times> message list) \<times> call list" where
  "scanChat clk orc myUserId cutoffTime chat tr =
     (let (recentExpired, tr1) = getRecentMessagesRealtime clk orc chat (Some myUserId) cutoffTime tr;
          (olderExpired, tr2) = searchOlderMessages clk orc chat cutoffTime tr1
      in ((chat, mergeById (recentExpired @ olderExpired)), tr2))"

fun scanAll ::
  "clock \<Rightarrow> backend \<Rightarrow> int \<Rightarrow> int \<Rightarrow> entity list \<Rightarrow> call list \<Rightarrow>
   (entity \<times> message list) list \<times> call list" where
  "scanAll clk orc myUserId cutoffTime [] tr = ([], tr)"
| "scanAll clk orc myUserId cutoffTime (chat # rest) tr =
     (let (res, tr1) = scanChat clk orc myUserId cutoffTime chat tr;
          (more, tr2) = scanAll clk orc myUserId cutoffTime rest tr1
      in (res # more, tr2))"

function chunks :: "nat \<Rightarrow> 'a list \<Rightarrow> 'a list list" where
  "chunks n xs = (if n = 0 \<or> xs = [] then [] else take n xs # chunks n (drop n xs))"
  by pat_completeness auto
termination
  by (relation "measure (\<lambda>(n, xs). length xs)") auto

declare chunks.simps [simp del]

fun deleteBatches ::
  "backend \<Rightarrow> entity \<Rightarrow> int list list \<Rightarrow> nat \<Rightarrow> nat \<Rightarrow> call list \<Rightarrow> (nat \<times> nat) \<times> call list" where
  "deleteBatches orc chat [] deleted failed tr = ((deleted, failed), tr)"
| "deleteBatches orc chat (batch # rest) deleted failed tr =
     (let ((d, f), tr1) = safeDeleteMessages orc chat batch tr
      in deleteBatches orc chat rest (deleted + d) (failed + f) (sleep 150 tr1))"

fun deletePhase ::
  "backend \<Rightarrow> nat \<Rightarrow> (entity \<times> message list) list \<Rightarrow> nat \<Rightarrow> nat \<Rightarrow> call list \<Rightarrow>
   (nat \<times> nat) \<times> call list" where
  "deletePhase orc batchSize [] totalDeleted totalFailed tr = ((totalDeleted, totalFailed), tr)"
| "deletePhase orc batchSize ((chat, expiredMessages) # rest) totalDeleted totalFailed tr =
     (if expiredMessages = [] then deletePhase orc batchSize rest totalDeleted totalFailed tr
      else
        (let ((d, f), tr1) =
               deleteBatches orc chat (chunks batchSize (map msg_id expiredMessages)) 0 0 tr
         in deletePhase orc batchSize rest (totalDeleted + d) (totalFailed + f) tr1))"

definition groupDialog :: "jsstring list \<Rightarrow> entity \<Rightarrow> bool" where
  "groupDialog notMonitorChatIds chat =
     (if ent_class chat = User then False
      else if ent_class chat = Channel \<and> ent_broadcast chat then False
      else (let chatId = normalizeId (RNum (ent_id chat))
            in if chatId = [] then False
               else chatId \<notin> set notMonitorChatIds))"

text \<open>The dialogs that have an entity.\<close>

definition dialogEntities :: "entity option list \<Rightarrow> entity list" where
  "dialogEntities dialogs = concat (map (\<lambda>d. case d of None \<Rightarrow> [] | Some chat \<Rightarrow> [chat]) dialogs)"

datatype sweep = Disabled | Aborted | NoGroups | Swept nat nat

definition deleteExpiredMessages ::
  "clock \<Rightarrow> backend \<Rightarrow> environment \<Rightarrow> call list \<Rightarrow> sweep \<times> call list" where
  "deleteExpiredMessages clk orc env tr =
     (let autoDeleteMinutes = num_or (parseInt (env_AUTO_DELETE_MINUTES env)) 10
      in if autoDeleteMinutes \<le> 0 then (Disabled, tr)
         else
           (case perform orc tr GetMe of
              (Entity (Some me), tr1) \<Rightarrow>
                (case perform orc tr1 (GetEntity (ByUser (ent_id me))) of
                   (Entity (Some fullUser), tr2) \<Rightarrow>
                     (let (now, tr3) = dateNow clk tr2;
                          cutoffTime = now div 1000 - autoDeleteMinutes * 60;
                          notMonitorChatIds = parseChatIds (env_NOT_MONITOR_CHAT_IDS env)
                      in case perform orc tr3 GetDialogs of
                           (Dialogs dialogs, tr4) \<Rightarrow>
                             (let groupDialogs =
                                    filter (groupDialog notMonitorChatIds) (dialogEntities dialogs)
                              in if groupDialogs = [] then (NoGroups, tr4)
                                 else
                                   (let (scanResults, tr5) =
                                          scanAll clk orc (ent_id fullUser) cutoffTime groupDialogs tr4;
                                        batchSize =
                                          nat (max 1 (num_or (parseInt (env_DELETE_BATCH_SIZE env)) 100));
                                        ((totalDeleted, totalFailed), tr6) =
                                          deletePhase orc batchSize scanResults 0 0 tr5
                                    in (Swept totalDeleted totalFailed, tr6)))
                         | (_, tr4) \<Rightarrow> (Aborted, tr4))
                 | (_, tr2) \<Rightarrow> (Aborted, tr2))
            | (_, tr1) \<Rightarrow> (Aborted, tr1)))"

section \<open>Example inputs\<close>

text \<open>Concrete settings, entities, messages and backends on which the model is run.\<close>

definition unsetEnv :: environment where
  "unsetEnv = \<lparr>env_AUTO_DELETE_MINUTES = None, env_DEDUP_WINDOW_MINUTES = None,
               env_NOT_MONITOR_CHAT_IDS = None, env_DELETE_BATCH_SIZE = None\<rparr>"

definition selfUser :: entity where
  "selfUser = \<lparr>ent_class = User, ent_broadcast = False, ent_id = 42\<rparr>"

definition someGroup :: entity where
  "someGroup = \<lparr>ent_class = Chat, ent_broadcast = False, ent_id = 555\<rparr>"

definition textMessage :: "int \<Rightarrow> int \<Rightarrow> jsstring \<Rightarrow> message" where
  "textMessage i d t =
     \<lparr>msg_id = i, msg_peerId = None, msg_fromId = RNum 42, msg_senderId = Some 42, msg_date = d,
      msg_message = t, msg_caption = [], msg_media = None, msg_attachment = False,
      msg_service = False\<rparr>"

text \<open>A backend with one group, in which the search finds one old message of the
  account; every deletion succeeds.\<close>

definition oneOldMessage :: backend where
  "oneOldMessage h =
     (case last h of
        GetMe \<Rightarrow> Entity (Some selfUser)
      | GetEntity r \<Rightarrow> Entity (Some selfUser)
      | GetDialogs \<Rightarrow> Dialogs [Some someGroup]
      | GetMessages c n \<Rightarrow> Messages []
      | Search c maxDate offsetId \<Rightarrow> Messages [Some (textMessage 7 0 (js ''hi''))]
      | DeleteMessages c ids \<Rightarrow> Done
      | _ \<Rightarrow> Threw)"

text \<open>A backend on which the newest messages of every chat are the given ones and
  every other call fails.\<close>

definition newestAre :: "message option list \<Rightarrow> backend" where
  "newestAre ms h = (case last h of GetMessages c n \<Rightarrow> Messages ms | _ \<Rightarrow> Threw)"

text \<open>A backend that deletes the messages 1, 3 and 5 one at a time and nothing else.\<close>

definition oddOnly :: backend where
  "oddOnly h =
     (case last h of
        DeleteMessages c ids \<Rightarrow> if ids = [1] \<or> ids = [3] \<or> ids = [5] then Done else Threw
      | _ \<Rightarrow> Threw)"

text \<open>A backend on which every call fails.\<close>

definition allFail :: backend where
  "allFail h = Threw"

text \<open>A monitor that watches the group \<open>-555\<close> for the keyword \<open>win\<close> and notifies
  the chat \<open>999\<close> through the client; messages of the group, one of them carrying
  both the old chat id and the channel id the group was migrated to.\<close>

definition watch555 :: config where
  "watch555 =
     initializeMonitoring asciiLower
       \<lparr>monitorChatIdsRaw = Some (js ''-555''), notMonitorChatIdsRaw = None,
        monitorKeywordsRaw = Some (js ''win''), targetUserIdsRaw = None, userKeywordsRaw = None,
        notificationChatId = Some (js ''999''), telegramBotToken = None,
        deleteNotificationKeywordsRaw = None\<rparr>
       (js ''1'') []"

definition groupMessage :: message where
  "groupMessage =
     (textMessage 55 1000 (js ''red win!''))
       \<lparr>msg_peerId := Some \<lparr>peer_userId = None, peer_chatId = Some 555, peer_channelId = None\<rparr>\<rparr>"

definition migratedMessage :: message where
  "migratedMessage =
     (textMessage 56 1000 (js ''red win!''))
       \<lparr>msg_peerId := Some \<lparr>peer_userId = None, peer_chatId = Some 555, peer_channelId = Some 777\<rparr>\<rparr>"

definition startState :: state where
  "startState = \<lparr>processedMessages = Map.empty, sentNotificationMessages = Map.empty, trace = []\<rparr>"

text \<open>A backend that resolves every reference to the given entity and fails otherwise.\<close>

definition resolves :: "entity \<Rightarrow> backend" where
  "resolves e h = (case last h of GetEntity r \<Rightarrow> Entity (Some e) | _ \<Rightarrow> Threw)"

text \<open>A backend that resolves every reference to \<open>someGroup\<close> and on which every
  client send succeeds, with message id 9001.\<close>

definition delivers :: backend where
  "delivers h =
     (case last h of
        GetEntity r \<Rightarrow> Entity (Some someGroup)
      | SendMessage e \<Rightarrow> Sent (Some 9001)
      | _ \<Rightarrow> Threw)"

text \<open>The supergroup the group 555 was migrated to.\<close>

definition migratedTo :: entity where
  "migratedTo = \<lparr>ent_class = Channel, ent_broadcast = False, ent_id = 777\<rparr>"

text \<open>A clock that stands still, and one that advances by a millisecond with every
  entry of the trace.\<close>

definition stoppedClock :: "int \<Rightarrow> clock" where
  "stoppedClock t tr = t"

definition tickingClock :: "int \<Rightarrow> clock" where
  "tickingClock t tr = t + int (length tr)"

section \<open>Properties of normalizeId\<close>

lemma js_simps [simp]:
  "js [] = []" "js (c # cs) = of_char c # js cs"
  by (simp_all add: js_def)






lemma digit_not_space: "is_digit c \<Longrightarrow> \<not> is_space c"
  by (auto simp: is_digit_def is_space_def)









section \<open>Properties of the numeric settings\<close>

lemma decimal_digits: "\<forall>c \<in> set (decimal n). is_digit c"
proof (induction n rule: decimal.induct)
  case (1 n)
  show ?case
  proof (cases "n < 10")
    case True
    then show ?thesis by (subst decimal.simps) (simp add: is_digit_def)
  next
    case False
    have "n mod 10 < 10" by simp
    then have "is_digit (48 + n mod 10)" unfolding is_digit_def by linarith
    with False 1 show ?thesis by (subst decimal.simps) auto
  qed
qed

lemma decimal_nonempty: "decimal n \<noteq> []"
  by (subst decimal.simps) simp

lemma decimal_value: "foldl (\<lambda>a c. a * 10 + digit_val c) 0 (decimal n) = n"
proof (induction n rule: decimal.induct)
  case (1 n)
  show ?case
  proof (cases "n < 10")
    case True
    then show ?thesis by (subst decimal.simps) (simp add: digit_val_def is_digit_def)
  next
    case False
    have "n mod 10 < 10" by simp
    then have "digit_val (48 + n mod 10) = n mod 10"
      unfolding digit_val_def is_digit_def by simp
    with False 1 show ?thesis by (subst decimal.simps) simp
  qed
qed

lemma radix10_digit: "is_digit c \<Longrightarrow> radix_digit 10 c"
  by (auto simp: radix_digit_def digit_val_def is_digit_def)

lemma takeWhile_decimal: "takeWhile (radix_digit 10) (decimal n) = decimal n"
  using decimal_digits [of n]
  by (auto intro!: takeWhile_eq_all_conv [THEN iffD2] simp: radix10_digit)

lemma decimal_hd_digit: "is_digit (hd (decimal n))"
  using decimal_digits [of n] decimal_nonempty [of n] by (cases "decimal n") auto

lemma decimal_no_hex: "\<not> prefix [48, 120] (decimal n)" "\<not> prefix [48, 88] (decimal n)"
  using decimal_digits [of n] by (auto simp: prefix_def is_digit_def)

lemma decimal_no_sign: "\<not> prefix [45] (decimal n)" "\<not> prefix [43] (decimal n)"
  using decimal_digits [of n] by (auto simp: prefix_def is_digit_def)

lemma dropWhile_space_decimal: "dropWhile is_space (decimal n) = decimal n"
  using decimal_hd_digit [of n] decimal_nonempty [of n]
  by (cases "decimal n") (auto simp: digit_not_space)

lemma parseInt_decimal: "parseInt (Some (decimal n)) = Some (int n)"
  by (simp add: parseInt_def Let_def dropWhile_space_decimal decimal_no_sign decimal_no_hex
        takeWhile_decimal decimal_nonempty decimal_value)

text \<open>Parsing the decimal rendering of an integer gives the integer back.\<close>

lemma parseInt_int_toString: "parseInt (Some (int_toString n)) = Some n"
proof (cases "n < 0")
  case True
  have "\<not> is_space 45" by (simp add: is_space_def)
  with True show ?thesis
    by (simp add: parseInt_def Let_def int_toString_def decimal_no_sign decimal_no_hex
        takeWhile_decimal decimal_nonempty decimal_value)
next
  case False
  then show ?thesis by (simp add: int_toString_def parseInt_decimal)
qed

lemma parseInt_zero: "parseInt (Some (js ''0'')) = Some 0"
  by (simp add: parseInt_def Let_def is_space_def radix_digit_def digit_val_def is_digit_def)

lemma parseInt_minus5: "parseInt (Some (js ''-5'')) = Some (- 5)"
  by (simp add: parseInt_def Let_def is_space_def radix_digit_def digit_val_def is_digit_def)

section \<open>The expiry sweep and its switch\<close>

text \<open>A negative age does disable the sweep: deleteExpiredMessages returns before its
  first backend call, and no timer is installed.\<close>

lemma negative_age_disables:
  "parseInt (env_AUTO_DELETE_MINUTES env) = Some n \<Longrightarrow> n < 0 \<Longrightarrow>
   deleteExpiredMessages clk orc env tr = (Disabled, tr) \<and>
   startAutoDeleteInterval (autoDeleteIntervalMs env) = None"
  by (simp add: deleteExpiredMessages_def num_or_def Let_def startAutoDeleteInterval_def
        autoDeleteIntervalMs_def AUTO_DELETE_MINUTES_def)

text \<open>With the age set to \<open>0\<close> the sweep is never \<open>Disabled\<close>, whatever the backend.\<close>

lemma zero_age_not_disabled:
  "fst (deleteExpiredMessages clk orc (env\<lparr>env_AUTO_DELETE_MINUTES := Some (js ''0'')\<rparr>) tr) \<noteq> Disabled"
  using parseInt_zero
  by (simp add: deleteExpiredMessages_def num_or_def Let_def
        split: prod.splits response.splits option.splits)

lemma searchLoop_numeral:
  "searchLoop orc chat c md (numeral k) off acc tr =
   searchLoop orc chat c md (Suc (pred_numeral k)) off acc tr"
  by (simp only: numeral_eq_Suc [of k])

lemmas searchLoop_unfold = searchLoop_numeral [unfolded searchLoop.simps]

text \<open>
  Claim C3. The claim (and the comment in deleteExpiredMessages, and the README) say
  that \<open>AUTO_DELETE_MINUTES = 0\<close> disables the expiry subsystem. \<open>parseInt("0") || 10\<close>
  is \<open>10\<close>: with the setting \<open>0\<close> the age is ten minutes, the timer is installed
  with a period of 600000 ms, and the sweep scans and deletes. On the backend
  \<open>oneOldMessage\<close> at clock 1000000000 ms it searches the group and deletes message 7.
\<close>

theorem zero_age_sweeps:
  "AUTO_DELETE_MINUTES (unsetEnv\<lparr>env_AUTO_DELETE_MINUTES := Some (js ''0'')\<rparr>) = 10 \<and>
   startAutoDeleteInterval
     (autoDeleteIntervalMs (unsetEnv\<lparr>env_AUTO_DELETE_MINUTES := Some (js ''0'')\<rparr>)) = Some 600000 \<and>
   deleteExpiredMessages (stoppedClock 1000000000) oneOldMessage
     (unsetEnv\<lparr>env_AUTO_DELETE_MINUTES := Some (js ''0'')\<rparr>) [] =
     (Swept 1 0,
      [GetMe, GetEntity (ByUser 42), DateNow, GetDialogs, GetMessages someGroup 200, DateNow,
       Search someGroup 999400 0, DeleteMessages someGroup [7], Sleep 150])"
proof -
  have a: "AUTO_DELETE_MINUTES (unsetEnv\<lparr>env_AUTO_DELETE_MINUTES := Some (js ''0'')\<rparr>) = 10"
    using parseInt_zero by (simp add: AUTO_DELETE_MINUTES_def num_or_def)
  have b: "startAutoDeleteInterval
     (autoDeleteIntervalMs (unsetEnv\<lparr>env_AUTO_DELETE_MINUTES := Some (js ''0'')\<rparr>)) = Some 600000"
    using a by (simp add: startAutoDeleteInterval_def autoDeleteIntervalMs_def)
  have c: "deleteExpiredMessages (stoppedClock 1000000000) oneOldMessage
     (unsetEnv\<lparr>env_AUTO_DELETE_MINUTES := Some (js ''0'')\<rparr>) [] =
     (Swept 1 0,
      [GetMe, GetEntity (ByUser 42), DateNow, GetDialogs, GetMessages someGroup 200, DateNow,
       Search someGroup 999400 0, DeleteMessages someGroup [7], Sleep 150])"
    by (simp add: deleteExpiredMessages_def parseInt_zero num_or_def Let_def perform_def
          stoppedClock_def oneOldMessage_def selfUser_def someGroup_def textMessage_def unsetEnv_def
          dateNow_def parseChatIds_def truthy_def dialogEntities_def groupDialog_def
          normalizeId_def int_toString_def decimal.simps stripIdPrefix_def is_space_def
          is_digit_def is_line_terminator_def scanChat_def getRecentMessagesRealtime_def
          RECENT_LIMIT_def searchOlderMessages_def isDeletableMessage_def mergeById_def
          parseInt_def radix_digit_def digit_val_def chunks.simps safeDeleteMessages_def sleep_def
          searchLoop_unfold)
  from a b c show ?thesis by (intro conjI)
qed

section \<open>The dedup window setting\<close>

text \<open>
  Claim C7. The claim (and the warning that realtime-monitor.js prints: "invalid
  setting, using the default") say that a non-positive dedup window falls back to
  \<open>max 1 AUTO_DELETE_MINUTES\<close>. The check only prints; a negative setting is
  truthy, so it survives both \<open>||\<close> fallbacks and is the window of the cleanup, which
  then removes every entry that is not from the future.
\<close>

theorem negative_dedup_window_kept:
  assumes "parseInt (env_DEDUP_WINDOW_MINUTES env) = Some n" and "n < 0"
  shows "effectiveDedupWindow env = n \<and>
         (\<forall>pm now key v. pm key = Some v \<and> ts v \<le> now \<longrightarrow>
            cleanupProcessedMessages pm (effectiveDedupWindow env) now key = None)"
proof -
  have w: "effectiveDedupWindow env = n"
    using assms
    by (simp add: effectiveDedupWindow_def DEDUP_WINDOW_MINUTES_def num_or_def
          parseInt_int_toString)
  have "cleanupProcessedMessages pm n now key = None" if "pm key = Some v" "ts v \<le> now"
    for pm now key v
  proof -
    have "n * 60 * 1000 < 0" using assms(2) by simp
    then have "now - ts v > n * 60 * 1000" using that(2) by linarith
    with that(1) show ?thesis by (simp add: cleanupProcessedMessages_def Let_def)
  qed
  with w show ?thesis by auto
qed

theorem negative_dedup_window_kept_witness:
  "effectiveDedupWindow (unsetEnv\<lparr>env_DEDUP_WINDOW_MINUTES := Some (js ''-5'')\<rparr>) = - 5 \<and>
   cleanupProcessedMessages [js ''555:7'' \<mapsto> \<lparr>ts = 1000, entry_text = js ''hi''\<rparr>]
     (effectiveDedupWindow (unsetEnv\<lparr>env_DEDUP_WINDOW_MINUTES := Some (js ''-5'')\<rparr>)) 1000
     (js ''555:7'') = None"
proof -
  let ?env = "unsetEnv\<lparr>env_DEDUP_WINDOW_MINUTES := Some (js ''-5'')\<rparr>"
  let ?v = "\<lparr>ts = 1000, entry_text = js ''hi''\<rparr>"
  have p: "parseInt (env_DEDUP_WINDOW_MINUTES ?env) = Some (- 5)"
    using parseInt_minus5 by simp
  have n: "(- 5 :: int) < 0" by simp
  note t = negative_dedup_window_kept [OF p n]
  have e: "[js ''555:7'' \<mapsto> ?v] (js ''555:7'') = Some ?v \<and> ts ?v \<le> 1000"
    by simp
  from t have 1: "effectiveDedupWindow ?env = - 5" by (rule conjunct1)
  from t have 2: "cleanupProcessedMessages [js ''555:7'' \<mapsto> ?v] (effectiveDedupWindow ?env) 1000
                    (js ''555:7'') = None"
    using e by blast
  from 1 2 show ?thesis by (rule conjI)
qed

section \<open>The recent pass at the expiry boundary\<close>

lemma recentLoop_at_horizon:
  assumes "\<forall>tr. T * 1000 \<le> clk tr"
  shows "fst (recentLoop clk my (T - 600) msgs tr) = []"
proof (induction msgs arbitrary: tr)
  case Nil
  show ?case by simp
next
  case (Cons mo msgs)
  show ?case
  proof (cases mo)
    case None
    with Cons show ?thesis by simp
  next
    case (Some msg)
    have "T * 1000 \<le> clk tr" using assms by blast
    then have "T \<le> clk tr div 1000" by linarith
    then have "\<not> msg_date msg < clk tr div 1000 - 600 \<Longrightarrow> \<not> msg_date msg < T - 600"
      by linarith
    with Some Cons show ?thesis
      by (simp add: dateNow_def Let_def split: prod.splits)
  qed
qed

text \<open>
  Claim C6. The claim says that with \<open>autoDeleteMinutes = 10\<close> a message of the
  account sent at \<open>T - 601\<close> s, among the newest 200 of its chat, is in the output
  of the recent pass. The loop stops at the first message older than 600 s, before it
  looks at the cutoff: at \<open>T = 1000000\<close> s the message is not in the output.
\<close>

theorem recent_pass_misses_just_expired: "textMessage 7 (1000000 - 601) (js ''hi'') \<notin>
   set (fst (getRecentMessagesRealtime (stoppedClock (1000000 * 1000))
               (newestAre [Some (textMessage 7 (1000000 - 601) (js ''hi''))])
               someGroup (Some 42) (1000000 - 10 * 60) []))"
  by (simp add: getRecentMessagesRealtime_def perform_def newestAre_def dateNow_def textMessage_def
        stoppedClock_def)

text \<open>
  Claim C6, as amended: with \<open>autoDeleteMinutes = 10\<close> the cutoff \<open>T - 600\<close> is the
  recency horizon of the loop, so as long as the clock does not run behind \<open>T\<close> the
  recent pass returns no message at all: the message sent at \<open>T - 601\<close> s is not
  included (the loop stops at it), and the one sent at \<open>T - 599\<close> s is excluded.
\<close>

theorem recent_pass_empty:
  assumes "\<forall>tr. T * 1000 \<le> clk tr"
  shows "fst (getRecentMessagesRealtime clk orc chat my (T - 10 * 60) tr) = []"
  using recentLoop_at_horizon [OF assms]
  by (simp add: getRecentMessagesRealtime_def perform_def split: response.splits)

theorem recent_pass_empty_witness:
  "fst (getRecentMessagesRealtime (tickingClock (1000000 * 1000))
          (newestAre [Some (textMessage 8 (1000000 - 599) (js ''new'')),
                      Some (textMessage 7 (1000000 - 601) (js ''hi''))])
          someGroup (Some 42) (1000000 - 10 * 60) []) = []"
proof -
  have "\<forall>tr. (1000000 :: int) * 1000 \<le> tickingClock (1000000 * 1000) tr"
    by (simp add: tickingClock_def)
  then show ?thesis by (rule recent_pass_empty)
qed

section \<open>safeDeleteMessages\<close>

lemma deleteEach_trace:
  "snd (deleteEach orc chat ids d f tr) =
   tr @ concat (map (\<lambda>i. [DeleteMessages chat [i], Sleep 120]) ids)"
  by (induction ids arbitrary: d f tr)
     (auto simp: perform_def sleep_def split: response.splits)

lemma deleteEach_total:
  "fst (fst (deleteEach orc chat ids d f tr)) + snd (fst (deleteEach orc chat ids d f tr)) =
   d + f + length ids"
  by (induction ids arbitrary: d f tr)
     (auto simp: perform_def split: response.splits)

lemma deleteEach_counts:
  assumes "\<forall>h i. (orc (h @ [DeleteMessages chat [i]]) = Done) = ok i"
  shows "fst (deleteEach orc chat ids d f tr) =
         (d + length (filter ok ids), f + length (filter (\<lambda>i. \<not> ok i) ids))"
proof (induction ids arbitrary: d f tr)
  case Nil
  show ?case by simp
next
  case (Cons i ids)
  have "(orc (tr @ [DeleteMessages chat [i]]) = Done) = ok i" using assms by blast
  with Cons show ?case
    by (cases "orc (tr @ [DeleteMessages chat [i]])") (auto simp: perform_def)
qed

text \<open>
  Claim C5. safeDeleteMessages first makes one bulk call for the whole list and, when
  it succeeds, returns \<open>(length ids, 0)\<close>. When it fails, every id is deleted on its
  own, in order and whatever happened to the ids before it (the trace does not depend
  on the outcomes), and the two counts add up to the number of ids. When the outcome of
  a single deletion depends on the id only (\<open>ok\<close>), the counts are the numbers of
  good and bad ids; with five ids of which exactly two fail the result is \<open>(3, 2)\<close>.
\<close>

theorem safeDeleteMessages_fallback:
  "(orc (tr @ [DeleteMessages chat ids]) = Done \<longrightarrow>
      safeDeleteMessages orc chat ids tr = ((length ids, 0), tr @ [DeleteMessages chat ids])) \<and>
   (orc (tr @ [DeleteMessages chat ids]) \<noteq> Done \<longrightarrow>
      snd (safeDeleteMessages orc chat ids tr) =
        tr @ DeleteMessages chat ids # concat (map (\<lambda>i. [DeleteMessages chat [i], Sleep 120]) ids) \<and>
      fst (fst (safeDeleteMessages orc chat ids tr)) + snd (fst (safeDeleteMessages orc chat ids tr)) =
        length ids \<and>
      ((\<forall>h i. (orc (h @ [DeleteMessages chat [i]]) = Done) = ok i) \<longrightarrow>
         fst (safeDeleteMessages orc chat ids tr) =
           (length (filter ok ids), length (filter (\<lambda>i. \<not> ok i) ids)) \<and>
         (length ids = 5 \<and> length (filter (\<lambda>i. \<not> ok i) ids) = 2 \<longrightarrow>
            fst (safeDeleteMessages orc chat ids tr) = (3, 2))))"
proof (cases "orc (tr @ [DeleteMessages chat ids]) = Done")
  case True
  then show ?thesis by (simp add: safeDeleteMessages_def perform_def)
next
  case False
  then have e: "safeDeleteMessages orc chat ids tr =
                deleteEach orc chat ids 0 0 (tr @ [DeleteMessages chat ids])"
    by (simp add: safeDeleteMessages_def perform_def split: response.splits)
  have t: "snd (safeDeleteMessages orc chat ids tr) =
        tr @ DeleteMessages chat ids # concat (map (\<lambda>i. [DeleteMessages chat [i], Sleep 120]) ids)"
    unfolding e by (simp add: deleteEach_trace)
  have s: "fst (fst (safeDeleteMessages orc chat ids tr)) +
           snd (fst (safeDeleteMessages orc chat ids tr)) = length ids"
    unfolding e using deleteEach_total [of orc chat ids 0 0] by simp
  have c: "fst (safeDeleteMessages orc chat ids tr) =
             (length (filter ok ids), length (filter (\<lambda>i. \<not> ok i) ids)) \<and>
           (length ids = 5 \<and> length (filter (\<lambda>i. \<not> ok i) ids) = 2 \<longrightarrow>
              fst (safeDeleteMessages orc chat ids tr) = (3, 2))"
    if ok: "\<forall>h i. (orc (h @ [DeleteMessages chat [i]]) = Done) = ok i"
  proof -
    have r: "fst (safeDeleteMessages orc chat ids tr) =
             (length (filter ok ids), length (filter (\<lambda>i. \<not> ok i) ids))"
      unfolding e using deleteEach_counts [OF ok, of ids 0 0] by simp
    have "length (filter ok ids) + length (filter (\<lambda>i. \<not> ok i) ids) = length ids"
      by (rule sum_length_filter_compl)
    with r show ?thesis by auto
  qed
  from False t s c show ?thesis by blast
qed

theorem safeDeleteMessages_fallback_witness:
  "safeDeleteMessages oddOnly someGroup [1, 2, 3, 4, 5] [] =
     ((3, 2),
      [DeleteMessages someGroup [1, 2, 3, 4, 5],
       DeleteMessages someGroup [1], Sleep 120, DeleteMessages someGroup [2], Sleep 120,
       DeleteMessages someGroup [3], Sleep 120, DeleteMessages someGroup [4], Sleep 120,
       DeleteMessages someGroup [5], Sleep 120]) \<and>
   safeDeleteMessages oneOldMessage someGroup [1, 2, 3, 4, 5] [] =
     ((5, 0), [DeleteMessages someGroup [1, 2, 3, 4, 5]])"
proof -
  let ?ok = "\<lambda>i::int. i = 1 \<or> i = 3 \<or> i = 5"
  let ?ids = "[1, 2, 3, 4, 5] :: int list"
  have bulk: "oddOnly ([] @ [DeleteMessages someGroup ?ids]) \<noteq> Done"
    by (simp add: oddOnly_def)
  have ok: "\<forall>h i. (oddOnly (h @ [DeleteMessages someGroup [i]]) = Done) = ?ok i"
    by (simp add: oddOnly_def)
  have five: "length ?ids = 5 \<and> length (filter (\<lambda>i. \<not> ?ok i) ?ids) = 2"
    by simp
  note t = safeDeleteMessages_fallback [of oddOnly "[]" someGroup ?ids ?ok]
  from t bulk have tr: "snd (safeDeleteMessages oddOnly someGroup ?ids []) =
        [] @ DeleteMessages someGroup ?ids #
          concat (map (\<lambda>i. [DeleteMessages someGroup [i], Sleep 120]) ?ids)"
    by blast
  from t bulk ok five have res: "fst (safeDeleteMessages oddOnly someGroup ?ids []) = (3, 2)"
    by blast
  have good: "oneOldMessage ([] @ [DeleteMessages someGroup ?ids]) = Done"
    by (simp add: oneOldMessage_def)
  note u = safeDeleteMessages_fallback [of oneOldMessage "[]" someGroup ?ids ?ok]
  from u good have all: "safeDeleteMessages oneOldMessage someGroup ?ids [] =
        ((length ?ids, 0), [] @ [DeleteMessages someGroup ?ids])"
    by blast
  from tr res all show ?thesis by (simp add: prod_eq_iff)
qed

section \<open>Retraction\<close>

text \<open>
  Claim C9. After deletePreviousNotifications has run for a target, the target has no
  dispatched id left; a target that had an entry keeps its key, with the empty list;
  and a retraction that follows for the same target (with any backend and token)
  finds nothing to delete: it makes no call and changes nothing. A target that never
  had an entry does not get one.
\<close>

theorem retraction_clears_record:
  "(case sentNotificationMessages (deletePreviousNotifications orc chat token st) chat of
      None \<Rightarrow> [] | Some l \<Rightarrow> l) = [] \<and>
   (sentNotificationMessages st chat \<noteq> None \<longrightarrow>
      sentNotificationMessages (deletePreviousNotifications orc chat token st) chat = Some []) \<and>
   deletePreviousNotifications orc' chat token' (deletePreviousNotifications orc chat token st) =
     deletePreviousNotifications orc chat token st"
  by (auto simp: deletePreviousNotifications_def Let_def split: prod.splits option.splits)

theorem retraction_clears_record_witness:
  "sentNotificationMessages
     (deletePreviousNotifications allFail (js ''-100777'') None
        \<lparr>processedMessages = Map.empty,
         sentNotificationMessages = [js ''-100777'' \<mapsto> [11, 12]], trace = []\<rparr>)
     (js ''-100777'') = Some []"
proof -
  let ?st = "\<lparr>processedMessages = Map.empty,
         sentNotificationMessages = [js ''-100777'' \<mapsto> [11, 12]], trace = []\<rparr>"
  have "sentNotificationMessages ?st (js ''-100777'') \<noteq> None" by simp
  with retraction_clears_record [of allFail "js ''-100777''" None ?st] show ?thesis by blast
qed

section \<open>Keyword matching\<close>


















lemma lower_unit_word [simp]: "is_word (lower_unit c) = is_word c"
  by (auto simp: lower_unit_def is_word_def is_digit_def)

lemma lower_unit_space [simp]: "is_space (lower_unit c) = is_space c"
  by (auto simp: lower_unit_def is_space_def)


lemma asciiLower_Nil [simp]: "asciiLower s = [] \<longleftrightarrow> s = []"
  by (simp add: asciiLower_def)





lemma asciiLower_needsSubstring: "needsSubstring (asciiLower k) = needsSubstring k"
  by (simp add: needsSubstring_def asciiLower_def list_ex_iff)
















section \<open>handleMessage and the dedup store\<close>

text \<open>Nothing but the dedup step of handleMessage writes \<open>processedMessages\<close>:
  resolving the chat, retracting and sending leave it as it is.\<close>

lemma recordSent_pm [simp]: "processedMessages (recordSent t i st) = processedMessages st"
  by (simp add: recordSent_def)

lemma botSendAll_pm: "processedMessages (snd (botSendAll orc targets n st)) = processedMessages st"
  by (induction targets arbitrary: n st)
     (auto simp: Let_def split: prod.splits response.splits option.splits bool.splits)

lemma clientSendAll_pm: "processedMessages (snd (clientSendAll orc targets n st)) = processedMessages st"
  by (induction targets arbitrary: n st)
     (auto simp: Let_def split: prod.splits response.splits option.splits bool.splits)

lemma sendNotification_pm:
  assumes "sendNotification orc cfg st = (r, st')"
  shows "processedMessages st' = processedMessages st"
proof (cases "truthy (NOTIFICATION_CHAT_ID cfg)")
  case False
  with assms show ?thesis by (simp add: sendNotification_def)
next
  case True
  let ?ids = "map trim (split_comma (case NOTIFICATION_CHAT_ID cfg of None \<Rightarrow> [] | Some r \<Rightarrow> r))"
  show ?thesis
  proof (cases "truthy (TELEGRAM_BOT_TOKEN cfg)")
    case bot: True
    with True assms have "st' = snd (botSendAll orc ?ids 0 st)"
      by (simp add: sendNotification_def Let_def split: prod.splits)
    then show ?thesis by (simp add: botSendAll_pm)
  next
    case client: False
    with True assms have "st' = snd (clientSendAll orc ?ids 0 st)"
      by (simp add: sendNotification_def Let_def split: prod.splits)
    then show ?thesis by (simp add: clientSendAll_pm)
  qed
qed

lemma deletePreviousNotifications_pm:
  "processedMessages (deletePreviousNotifications orc c tok st) = processedMessages st"
  by (simp add: deletePreviousNotifications_def Let_def split: prod.splits)

lemma retract_fold_pm:
  "processedMessages (foldl (\<lambda>st' chatId. deletePreviousNotifications orc chatId tok st') st cs) =
   processedMessages st"
  by (induction cs arbitrary: st) (simp_all add: deletePreviousNotifications_pm)

lemma retractAll_pm: "retractAll orc cfg st = Some st' \<Longrightarrow> processedMessages st' = processedMessages st"
  by (auto simp: retractAll_def retract_fold_pm split: option.splits)

lemma inNotificationChat_pm:
  assumes "inNotificationChat orc cfg m c s st = (out, st')"
  shows "processedMessages st' = processedMessages st \<and>
         (\<forall>r. out \<noteq> Some (Notified r)) \<and> out \<noteq> Some SkipDuplicate"
proof (cases "deleteNotificationKeywords cfg \<noteq> [] \<and>
              shouldDeletePreviousNotifications (displayText m) (deleteNotificationKeywords cfg)")
  case False
  with assms show ?thesis
    by (auto simp: inNotificationChat_def Let_def split: if_splits)
next
  case True
  show ?thesis
  proof (cases "retractAll orc cfg st")
    case None
    with True assms show ?thesis by (auto simp: inNotificationChat_def Let_def)
  next
    case (Some st1)
    then have "processedMessages st1 = processedMessages st" by (rule retractAll_pm)
    with True Some assms show ?thesis
      by (auto simp: inNotificationChat_def Let_def split: if_splits)
  qed
qed

lemma retractInMonitoredChat_pm:
  "retractInMonitoredChat orc cfg s t st = Some st' \<Longrightarrow> processedMessages st' = processedMessages st"
  by (auto simp: retractInMonitoredChat_def Let_def dest: retractAll_pm split: if_splits)

lemma admit_pm:
  assumes "admit lc orc cfg m st = (stg, st')"
  shows "processedMessages st' = processedMessages st \<and>
         (\<forall>r. stg \<noteq> Stop (Notified r)) \<and> stg \<noteq> Stop SkipDuplicate"
proof (cases "case msg_peerId m of None \<Rightarrow> False | Some p \<Rightarrow> peer_userId p \<noteq> None")
  case True
  with assms show ?thesis by (auto simp: admit_def)
next
  case notPrivate: False
  obtain r tr1 where rc: "resolveChat orc m (trace st) = (r, tr1)" by (cases "resolveChat orc m (trace st)")
  show ?thesis
  proof (cases r)
    case None
    with notPrivate rc assms show ?thesis by (auto simp: admit_def)
  next
    case (Some cc)
    obtain chat chatId where cc: "cc = (chat, chatId)" by (cases cc)
    let ?st1 = "st\<lparr>trace := tr1\<rparr>"
    let ?cid = "normalizeId chatId"
    let ?sid = "normalizeId (msg_fromId m)"
    show ?thesis
    proof (cases "?cid \<in> set (normalizedNotMonitorIds cfg)")
      case True
      with notPrivate rc Some cc assms show ?thesis by (auto simp: admit_def Let_def)
    next
      case notDenied: False
      obtain out st2 where n: "(if ?cid = normalizeId (case NOTIFICATION_CHAT_ID cfg of None \<Rightarrow> RNull | Some s \<Rightarrow> RStr s)
                 then inNotificationChat orc cfg m ?cid ?sid ?st1 else (None, ?st1)) = (out, st2)"
        by (cases "(if ?cid = normalizeId (case NOTIFICATION_CHAT_ID cfg of None \<Rightarrow> RNull | Some s \<Rightarrow> RStr s)
                 then inNotificationChat orc cfg m ?cid ?sid ?st1 else (None, ?st1))")
      then have p2: "processedMessages st2 = processedMessages st \<and>
                     (\<forall>r. out \<noteq> Some (Notified r)) \<and> out \<noteq> Some SkipDuplicate"
        by (auto dest: inNotificationChat_pm split: if_splits)
      from notPrivate rc Some cc notDenied n assms
      have e: "(stg, st') =
               (case out of
                  Some x \<Rightarrow> (Stop x, st2)
                | None \<Rightarrow>
                    (if \<not> monitoredChat cfg m ?cid then (Stop SkipNotMonitored, st2)
                     else if displayText m = [] then (Stop SkipEmpty, st2)
                     else (case retractInMonitoredChat orc cfg ?sid (displayText m) st2 of
                             None \<Rightarrow> (Stop TypeError, st2)
                           | Some st3 \<Rightarrow>
                               (if shouldProcessMessage lc cfg ?sid (displayText m)
                                then (Pass ?cid (displayText m), st3)
                                else (Stop SkipNoMatch, st3)))))"
        by (simp add: admit_def Let_def)
      show ?thesis
      proof (cases "retractInMonitoredChat orc cfg ?sid (displayText m) st2")
        case None
        with e p2 show ?thesis by (auto split: option.splits if_splits)
      next
        case (Some st3)
        then have "processedMessages st3 = processedMessages st2" by (rule retractInMonitoredChat_pm)
        with Some e p2 show ?thesis by (auto split: option.splits if_splits)
      qed
    qed
  qed
qed


lemma handleMessage_keeps:
  assumes "processedMessages st k = Some e"
  shows "processedMessages (snd (handleMessage lc orc now cfg m st)) k = Some e"
proof -
  obtain stg st1 where a: "admit lc orc cfg m st = (stg, st1)" by (cases "admit lc orc cfg m st")
  then have p: "processedMessages st1 = processedMessages st" using admit_pm by blast
  show ?thesis
  proof (cases stg)
    case (Stop out)
    with a p assms show ?thesis by (simp add: handleMessage_def)
  next
    case (Pass cid body)
    show ?thesis
    proof (cases "processedMessages st1 (dedupKey cid m) = None")
      case False
      with a p Pass assms show ?thesis by (auto simp: handleMessage_def Let_def)
    next
      case True
      let ?st2 = "st1\<lparr>processedMessages :=
                     (processedMessages st1)(dedupKey cid m \<mapsto> \<lparr>ts = now, entry_text = body\<rparr>)\<rparr>"
      obtain r st3 where sn: "sendNotification orc cfg ?st2 = (r, st3)"
        by (cases "sendNotification orc cfg ?st2")
      then have "processedMessages st3 = processedMessages ?st2" by (rule sendNotification_pm)
      moreover have "dedupKey cid m \<noteq> k" using True p assms by auto
      ultimately have "processedMessages st3 k = Some e" using p assms by simp
      with a Pass True sn show ?thesis by (simp add: handleMessage_def Let_def)
    qed
  qed
qed

lemma cleanup_keeps:
  "pm k = Some e \<Longrightarrow> now \<le> ts e + W * 60 * 1000 \<Longrightarrow> cleanupProcessedMessages pm W now k = Some e"
  by (simp add: cleanupProcessedMessages_def Let_def)

lemma cleanup_removes:
  "pm k = Some e \<Longrightarrow> ts e + W * 60 * 1000 < now \<Longrightarrow> cleanupProcessedMessages pm W now k = None"
  by (simp add: cleanupProcessedMessages_def Let_def)

lemma step_keeps:
  assumes "processedMessages st k = Some e"
    and "snd te = Cleanup \<longrightarrow> fst te \<le> ts e + W * 60 * 1000"
  shows "processedMessages (step lc orc cfg W te st) k = Some e"
proof (cases "snd te")
  case (Arrive m)
  with assms(1) show ?thesis by (simp add: step_def handleMessage_keeps)
next
  case Cleanup
  with assms show ?thesis by (simp add: step_def cleanup_keeps)
next
  case (Other cs)
  with assms(1) show ?thesis by (simp add: step_def)
qed

lemma run_keeps:
  assumes "processedMessages st k = Some e"
    and "\<forall>te \<in> set evs. snd te = Cleanup \<longrightarrow> fst te \<le> ts e + W * 60 * 1000"
  shows "processedMessages (run lc orc cfg W evs st) k = Some e"
  using assms
proof (induction evs arbitrary: st)
  case Nil
  then show ?case by (simp add: run_def)
next
  case (Cons te evs)
  from Cons.prems have "processedMessages (step lc orc cfg W te st) k = Some e"
    by (intro step_keeps) auto
  with Cons.IH [of "step lc orc cfg W te st"] Cons.prems(2) show ?case by (simp add: run_def)
qed

lemma handleMessage_duplicate:
  assumes "fingerprint lc orc cfg m st = Some key" and "processedMessages st key \<noteq> None"
  shows "handleMessage lc orc now cfg m st = (SkipDuplicate, snd (admit lc orc cfg m st))"
proof -
  obtain stg st1 where a: "admit lc orc cfg m st = (stg, st1)" by (cases "admit lc orc cfg m st")
  then have p: "processedMessages st1 = processedMessages st" using admit_pm by blast
  from a assms(1) obtain cid body where s: "stg = Pass cid body" "key = dedupKey cid m"
    by (auto simp: fingerprint_def split: stage.splits)
  with a p assms(2) show ?thesis by (simp add: handleMessage_def Let_def)
qed

lemma handleMessage_fresh:
  assumes "fingerprint lc orc cfg m st = Some key" and "processedMessages st key = None"
  shows "\<exists>r body st1 st'.
           admit lc orc cfg m st = (Pass (take (length key - length (js '':'' @ int_toString (msg_id m))) key) body, st1) \<and>
           sendNotification orc cfg
             (st1\<lparr>processedMessages := (processedMessages st1)(key \<mapsto> \<lparr>ts = now, entry_text = body\<rparr>)\<rparr>) = (r, st') \<and>
           handleMessage lc orc now cfg m st = (Notified r, st') \<and>
           processedMessages st' key = Some \<lparr>ts = now, entry_text = body\<rparr>"
proof -
  obtain stg st1 where a: "admit lc orc cfg m st = (stg, st1)" by (cases "admit lc orc cfg m st")
  then have p: "processedMessages st1 = processedMessages st" using admit_pm by blast
  from a assms(1) obtain cid body where s: "stg = Pass cid body" "key = dedupKey cid m"
    by (auto simp: fingerprint_def split: stage.splits)
  let ?st2 = "st1\<lparr>processedMessages := (processedMessages st1)(key \<mapsto> \<lparr>ts = now, entry_text = body\<rparr>)\<rparr>"
  obtain r st' where sn: "sendNotification orc cfg ?st2 = (r, st')"
    by (cases "sendNotification orc cfg ?st2")
  then have "processedMessages st' = processedMessages ?st2" by (rule sendNotification_pm)
  then have k: "processedMessages st' key = Some \<lparr>ts = now, entry_text = body\<rparr>" by simp
  have c: "take (length key - length (js '':'' @ int_toString (msg_id m))) key = cid"
    using s(2) by (simp add: dedupKey_def)
  from a s p assms(2) sn have "handleMessage lc orc now cfg m st = (Notified r, st')"
    by (simp add: handleMessage_def Let_def)
  with a s sn k c show ?thesis by auto
qed

lemma handleMessage_Notified:
  assumes "handleMessage lc orc now cfg m st = (Notified r, st')"
  shows "\<exists>cid body st1.
           admit lc orc cfg m st = (Pass cid body, st1) \<and>
           processedMessages st (dedupKey cid m) = None \<and>
           sendNotification orc cfg
             (st1\<lparr>processedMessages :=
                    (processedMessages st1)(dedupKey cid m \<mapsto> \<lparr>ts = now, entry_text = body\<rparr>)\<rparr>) = (r, st') \<and>
           processedMessages st' (dedupKey cid m) = Some \<lparr>ts = now, entry_text = body\<rparr>"
proof -
  obtain stg st1 where a: "admit lc orc cfg m st = (stg, st1)" by (cases "admit lc orc cfg m st")
  then have p: "processedMessages st1 = processedMessages st"
    and n: "stg \<noteq> Stop (Notified r)" using admit_pm by blast+
  from a n assms obtain cid body where s: "stg = Pass cid body"
    by (cases stg) (auto simp: handleMessage_def)
  let ?key = "dedupKey cid m"
  let ?st2 = "st1\<lparr>processedMessages := (processedMessages st1)(?key \<mapsto> \<lparr>ts = now, entry_text = body\<rparr>)\<rparr>"
  from a s assms have f: "processedMessages st1 ?key = None"
    by (auto simp: handleMessage_def Let_def split: if_splits)
  with a s assms have sn: "sendNotification orc cfg ?st2 = (r, st')"
    by (auto simp: handleMessage_def Let_def split: prod.splits)
  then have "processedMessages st' = processedMessages ?st2" by (rule sendNotification_pm)
  then have "processedMessages st' ?key = Some \<lparr>ts = now, entry_text = body\<rparr>" by simp
  with a s f p sn show ?thesis by auto
qed

subsection \<open>The example monitor\<close>

lemma watch555_value:
  "watch555 =
     \<lparr>normalizedMonitorIds = [js ''555''], monitorChatIds = [js ''-555''],
      targetUserIdsNormalized = [], userKeywordsNormalized = [],
      monitorKeywordsNormalized = [js ''win''], SELF_USER_ID_NORMALIZED = js ''1'',
      BOT_USER_ID_NORMALIZED = [], NOTIFICATION_CHAT_ID = Some (js ''999''),
      TELEGRAM_BOT_TOKEN = None, normalizedNotMonitorIds = [], deleteNotificationKeywords = []\<rparr>"
  by (simp add: watch555_def initializeMonitoring_def parseConfigList_def truthy_def trim_def
        is_space_def normalizeIds_def normalizeKeywords_def normalizeId_def stripIdPrefix_def
        is_digit_def is_line_terminator_def asciiLower_def lower_unit_def Let_def)

lemma admit_groupMessage:
  "admit asciiLower delivers watch555 groupMessage st =
     (Pass (js ''555'') (js ''red win!''),
      st\<lparr>trace := trace st @
             [GetEntity (ByPeer \<lparr>peer_userId = None, peer_chatId = Some 555, peer_channelId = None\<rparr>)]\<rparr>)"
  by (simp add: admit_def watch555_value groupMessage_def textMessage_def resolveChat_def
        perform_def delivers_def someGroup_def Let_def monitoredChat_def displayText_def
        extractMessageText_def js_or_def retractInMonitoredChat_def shouldProcessMessage_def
        normalizeId_def stripIdPrefix_def is_space_def is_digit_def is_line_terminator_def
        int_toString_def decimal.simps matchKeyword_def asciiLower_def lower_unit_def
        needsSubstring_def is_word_def wordRegexTest_def matches_at_def boundary_def
        word_at_def canonicalize_def upt_rec)

lemma dedupKey_groupMessage: "dedupKey (js ''555'') groupMessage = js ''555:55''"
  by (simp add: dedupKey_def groupMessage_def textMessage_def int_toString_def decimal.simps)

lemma fingerprint_groupMessage:
  "fingerprint asciiLower delivers watch555 groupMessage st = Some (js ''555:55'')"
  by (simp only: fingerprint_def admit_groupMessage fst_conv stage.case dedupKey_groupMessage)

lemma first_groupMessage:
  "handleMessage asciiLower delivers 0 watch555 groupMessage startState =
     (Notified True,
      \<lparr>processedMessages = [js ''555:55'' \<mapsto> \<lparr>ts = 0, entry_text = js ''red win!''\<rparr>],
       sentNotificationMessages = [js ''999'' \<mapsto> [9001]],
       trace = [GetEntity (ByPeer \<lparr>peer_userId = None, peer_chatId = Some 555, peer_channelId = None\<rparr>),
                GetEntity (ByName (js ''999'')), SendMessage someGroup]\<rparr>)"
  apply (simp only: handleMessage_def admit_groupMessage prod.case stage.case dedupKey_groupMessage)
  apply (simp add: Let_def startState_def sendNotification_def recordSent_def
        watch555_value truthy_def trim_def is_space_def lookupEntity_def perform_def delivers_def)
  done

lemma admit_groupMessage_allFail:
  "admit asciiLower allFail watch555 groupMessage st =
     (Pass (js ''555'') (js ''red win!''),
      st\<lparr>trace := trace st @
             [GetEntity (ByPeer \<lparr>peer_userId = None, peer_chatId = Some 555, peer_channelId = None\<rparr>)]\<rparr>)"
  by (simp add: admit_def watch555_value groupMessage_def textMessage_def resolveChat_def
        perform_def allFail_def peerChatId_def Let_def monitoredChat_def displayText_def
        extractMessageText_def js_or_def retractInMonitoredChat_def shouldProcessMessage_def
        normalizeId_def stripIdPrefix_def is_space_def is_digit_def is_line_terminator_def
        int_toString_def decimal.simps matchKeyword_def asciiLower_def lower_unit_def
        needsSubstring_def is_word_def wordRegexTest_def matches_at_def boundary_def
        word_at_def canonicalize_def upt_rec)

lemma failed_groupMessage:
  "handleMessage asciiLower allFail 0 watch555 groupMessage startState =
     (Notified False,
      \<lparr>processedMessages = [js ''555:55'' \<mapsto> \<lparr>ts = 0, entry_text = js ''red win!''\<rparr>],
       sentNotificationMessages = Map.empty,
       trace = [GetEntity (ByPeer \<lparr>peer_userId = None, peer_chatId = Some 555, peer_channelId = None\<rparr>),
                GetEntity (ByName (js ''999'')), GetInputEntity (js ''999'')]\<rparr>)"
  apply (simp only: handleMessage_def admit_groupMessage_allFail prod.case stage.case dedupKey_groupMessage)
  apply (simp add: Let_def startState_def sendNotification_def recordSent_def
        watch555_value truthy_def trim_def is_space_def lookupEntity_def perform_def allFail_def)
  done

subsection \<open>The window\<close>

lemma duplicate_until_cleanup:
  assumes "processedMessages st1 key = Some e"
    and "\<forall>te \<in> set evs. snd te = Cleanup \<longrightarrow> fst te \<le> ts e + W * 60 * 1000"
    and "fingerprint lc orc cfg m' (run lc orc cfg W evs st1) = Some key"
  shows "handleMessage lc orc t1 cfg m' (run lc orc cfg W evs st1) =
           (SkipDuplicate, snd (admit lc orc cfg m' (run lc orc cfg W evs st1)))"
proof -
  have "processedMessages (run lc orc cfg W evs st1) key = Some e"
    using assms(1,2) by (rule run_keeps)
  then have "processedMessages (run lc orc cfg W evs st1) key \<noteq> None" by simp
  with assms(3) show ?thesis by (rule handleMessage_duplicate)
qed

lemma accepted_after_cleanup:
  assumes "processedMessages st2 key = Some e"
    and "ts e + W * 60 * 1000 < c"
    and "fingerprint lc orc cfg m' (step lc orc cfg W (c, Cleanup) st2) = Some key"
  shows "\<exists>r. fst (handleMessage lc orc t2 cfg m' (step lc orc cfg W (c, Cleanup) st2)) = Notified r"
proof -
  have "processedMessages (step lc orc cfg W (c, Cleanup) st2) key = None"
    using assms(1,2) by (simp add: step_def cleanup_removes)
  with assms(3) handleMessage_fresh [of lc orc cfg m' "step lc orc cfg W (c, Cleanup) st2" key t2]
  show ?thesis by auto
qed

lemma accepted_entry:
  assumes "handleMessage lc orc t0 cfg m st = (Notified r, st1)"
    and "fingerprint lc orc cfg m st = Some key"
  shows "\<exists>body. processedMessages st1 key = Some \<lparr>ts = t0, entry_text = body\<rparr>"
proof -
  from handleMessage_Notified [OF assms(1)] obtain cid body sta where
    a: "admit lc orc cfg m st = (Pass cid body, sta)" and
    k: "processedMessages st1 (dedupKey cid m) = Some \<lparr>ts = t0, entry_text = body\<rparr>"
    by blast
  from a assms(2) have "key = dedupKey cid m" by (simp add: fingerprint_def)
  with k show ?thesis by blast
qed

text \<open>
  Claim C1. The claim says that a fingerprint accepted at \<open>t0\<close> is rejected until
  \<open>t0 + W\<close> and accepted again at \<open>t0 + W + \<epsilon>\<close>. handleMessage never looks at the
  age of an entry; only the periodic cleanup removes entries. With a window of one
  minute, a message accepted at 0 and a cleanup at 30000 ms (the next one is due at
  90000 ms), the same message arriving at 60001 ms is still dropped.
\<close>

theorem dedup_not_reaccepted_without_cleanup:
  "fst (handleMessage asciiLower delivers 0 watch555 groupMessage startState) = Notified True \<and>
   fst (handleMessage asciiLower delivers (0 + 1 * 60 * 1000 + 1) watch555 groupMessage
          (run asciiLower delivers watch555 1 [(30000, Cleanup)]
             (snd (handleMessage asciiLower delivers 0 watch555 groupMessage startState)))) = SkipDuplicate"
proof -
  let ?evs = "[(30000, Cleanup)] :: (int \<times> event) list"
  let ?st1 = "snd (handleMessage asciiLower delivers 0 watch555 groupMessage startState)"
  let ?e = "\<lparr>ts = 0, entry_text = js ''red win!''\<rparr>"
  have a: "fst (handleMessage asciiLower delivers 0 watch555 groupMessage startState) = Notified True"
    by (simp add: first_groupMessage)
  have e: "processedMessages ?st1 (js ''555:55'') = Some ?e"
    by (simp add: first_groupMessage)
  have w: "\<forall>te \<in> set ?evs. snd te = Cleanup \<longrightarrow> fst te \<le> ts ?e + 1 * 60 * 1000" by simp
  have f: "fingerprint asciiLower delivers watch555 groupMessage (run asciiLower delivers watch555 1 ?evs ?st1) = Some (js ''555:55'')"
    by (rule fingerprint_groupMessage)
  from duplicate_until_cleanup [OF e w f] a show ?thesis by simp
qed

text \<open>
  Claim C1, as amended. Let handleMessage accept a message with fingerprint \<open>key\<close> at
  \<open>t0\<close>, and let any events follow (arrivals, cleanups, other backend traffic) in
  which no cleanup runs later than \<open>t0 + W\<close> minutes. Then a message with the same
  fingerprint is dropped as a duplicate, whenever it arrives, and nothing is sent
  for it: so it is rejected at every \<open>t1\<close> with \<open>t0 \<le> t1 < t0 + W\<close>. Once a cleanup
  has run later than \<open>t0 + W\<close>, a message with this fingerprint is accepted again.
\<close>

theorem dedup_until_cleanup:
  assumes "handleMessage lc orc t0 cfg m st = (Notified r, st1)"
    and "fingerprint lc orc cfg m st = Some key"
    and "\<forall>te \<in> set evs. snd te = Cleanup \<longrightarrow> fst te \<le> t0 + W * 60 * 1000"
  shows "(fingerprint lc orc cfg m' (run lc orc cfg W evs st1) = Some key \<longrightarrow>
            handleMessage lc orc t1 cfg m' (run lc orc cfg W evs st1) =
              (SkipDuplicate, snd (admit lc orc cfg m' (run lc orc cfg W evs st1)))) \<and>
         (t0 + W * 60 * 1000 < c \<and>
          fingerprint lc orc cfg m' (step lc orc cfg W (c, Cleanup) (run lc orc cfg W evs st1)) = Some key \<longrightarrow>
            (\<exists>r'. fst (handleMessage lc orc t2 cfg m'
                          (step lc orc cfg W (c, Cleanup) (run lc orc cfg W evs st1))) = Notified r'))"
proof -
  from accepted_entry [OF assms(1,2)] obtain body where
    e: "processedMessages st1 key = Some \<lparr>ts = t0, entry_text = body\<rparr>" ..
  let ?e = "\<lparr>ts = t0, entry_text = body\<rparr>"
  have w: "\<forall>te \<in> set evs. snd te = Cleanup \<longrightarrow> fst te \<le> ts ?e + W * 60 * 1000"
    using assms(3) by simp
  have 1: "handleMessage lc orc t1 cfg m' (run lc orc cfg W evs st1) =
              (SkipDuplicate, snd (admit lc orc cfg m' (run lc orc cfg W evs st1)))"
    if "fingerprint lc orc cfg m' (run lc orc cfg W evs st1) = Some key"
    using e w that by (rule duplicate_until_cleanup)
  have k: "processedMessages (run lc orc cfg W evs st1) key = Some ?e"
    using e w by (rule run_keeps)
  have 2: "\<exists>r'. fst (handleMessage lc orc t2 cfg m'
                          (step lc orc cfg W (c, Cleanup) (run lc orc cfg W evs st1))) = Notified r'"
    if "t0 + W * 60 * 1000 < c"
      "fingerprint lc orc cfg m' (step lc orc cfg W (c, Cleanup) (run lc orc cfg W evs st1)) = Some key"
  proof -
    have "ts ?e + W * 60 * 1000 < c" using that(1) by simp
    with k show ?thesis using that(2) by (rule accepted_after_cleanup)
  qed
  from 1 2 show ?thesis by blast
qed

theorem dedup_until_cleanup_witness:
  "fst (handleMessage asciiLower delivers 59999 watch555 groupMessage
          (run asciiLower delivers watch555 1 [(30000, Cleanup), (45000, Arrive groupMessage)]
             (snd (handleMessage asciiLower delivers 0 watch555 groupMessage startState)))) = SkipDuplicate \<and>
   (\<exists>r'. fst (handleMessage asciiLower delivers 60002 watch555 groupMessage
                 (step asciiLower delivers watch555 1 (60001, Cleanup)
                    (run asciiLower delivers watch555 1 [(30000, Cleanup), (45000, Arrive groupMessage)]
                       (snd (handleMessage asciiLower delivers 0 watch555 groupMessage startState))))) = Notified r')"
proof -
  let ?evs = "[(30000, Cleanup), (45000, Arrive groupMessage)] :: (int \<times> event) list"
  let ?st1 = "snd (handleMessage asciiLower delivers 0 watch555 groupMessage startState)"
  have h: "handleMessage asciiLower delivers 0 watch555 groupMessage startState = (Notified True, ?st1)"
    by (simp add: first_groupMessage)
  have f: "fingerprint asciiLower delivers watch555 groupMessage startState = Some (js ''555:55'')"
    by (rule fingerprint_groupMessage)
  have w: "\<forall>te \<in> set ?evs. snd te = Cleanup \<longrightarrow> fst te \<le> 0 + 1 * 60 * 1000" by simp
  note t = dedup_until_cleanup [OF h f w, of groupMessage 59999 60001 60002]
  have c: "(0::int) + 1 * 60 * 1000 < 60001" by simp
  from t fingerprint_groupMessage c show ?thesis by (simp del: js_simps)
qed

subsection \<open>Marking and dispatch\<close>

text \<open>
  Claim C10. When handleMessage gets as far as the notification, with any result
  \<open>r\<close> and in particular with \<open>r = False\<close> (no target was reached), the dedup
  entry was written before sendNotification ran, sendNotification returned the
  state that handleMessage returns, and the entry is in that state. A replay with the
  same fingerprint is then dropped for as long as no cleanup runs after the window,
  whether or not the first notification was delivered.
\<close>

theorem dedup_marked_before_dispatch:
  assumes "handleMessage lc orc now cfg m st = (Notified r, st')"
  shows "\<exists>cid body st1.
           admit lc orc cfg m st = (Pass cid body, st1) \<and>
           sendNotification orc cfg
             (st1\<lparr>processedMessages :=
                    (processedMessages st1)(dedupKey cid m \<mapsto> \<lparr>ts = now, entry_text = body\<rparr>)\<rparr>) = (r, st') \<and>
           processedMessages st' (dedupKey cid m) = Some \<lparr>ts = now, entry_text = body\<rparr> \<and>
           (\<forall>evs W m' t1.
              (\<forall>te \<in> set evs. snd te = Cleanup \<longrightarrow> fst te \<le> now + W * 60 * 1000) \<and>
              fingerprint lc orc cfg m' (run lc orc cfg W evs st') = Some (dedupKey cid m) \<longrightarrow>
              handleMessage lc orc t1 cfg m' (run lc orc cfg W evs st') =
                (SkipDuplicate, snd (admit lc orc cfg m' (run lc orc cfg W evs st'))))"
proof -
  from handleMessage_Notified [OF assms] obtain cid body st1 where
    a: "admit lc orc cfg m st = (Pass cid body, st1)" and
    s: "sendNotification orc cfg
          (st1\<lparr>processedMessages :=
                 (processedMessages st1)(dedupKey cid m \<mapsto> \<lparr>ts = now, entry_text = body\<rparr>)\<rparr>) = (r, st')" and
    k: "processedMessages st' (dedupKey cid m) = Some \<lparr>ts = now, entry_text = body\<rparr>"
    by blast
  have "handleMessage lc orc t1 cfg m' (run lc orc cfg W evs st') =
          (SkipDuplicate, snd (admit lc orc cfg m' (run lc orc cfg W evs st')))"
    if "\<forall>te \<in> set evs. snd te = Cleanup \<longrightarrow> fst te \<le> now + W * 60 * 1000"
      "fingerprint lc orc cfg m' (run lc orc cfg W evs st') = Some (dedupKey cid m)"
    for evs W m' t1
  proof -
    have "\<forall>te \<in> set evs. snd te = Cleanup \<longrightarrow>
            fst te \<le> ts \<lparr>ts = now, entry_text = body\<rparr> + W * 60 * 1000"
      using that(1) by simp
    with k show ?thesis using that(2) by (rule duplicate_until_cleanup)
  qed
  with a s k show ?thesis by blast
qed

theorem dedup_marked_before_dispatch_witness:
  "fst (handleMessage asciiLower allFail 0 watch555 groupMessage startState) = Notified False \<and>
   processedMessages (snd (handleMessage asciiLower allFail 0 watch555 groupMessage startState)) (js ''555:55'') =
     Some \<lparr>ts = 0, entry_text = js ''red win!''\<rparr> \<and>
   fst (handleMessage asciiLower allFail 1000 watch555 groupMessage
          (run asciiLower allFail watch555 10 [(500, Cleanup)]
             (snd (handleMessage asciiLower allFail 0 watch555 groupMessage startState)))) = SkipDuplicate"
proof -
  let ?st' = "snd (handleMessage asciiLower allFail 0 watch555 groupMessage startState)"
  let ?evs = "[(500, Cleanup)] :: (int \<times> event) list"
  have h: "handleMessage asciiLower allFail 0 watch555 groupMessage startState = (Notified False, ?st')"
    by (simp add: failed_groupMessage)
  from dedup_marked_before_dispatch [OF h] obtain cid body st1 where
    a: "admit asciiLower allFail watch555 groupMessage startState = (Pass cid body, st1)" and
    k: "processedMessages ?st' (dedupKey cid groupMessage) = Some \<lparr>ts = 0, entry_text = body\<rparr>" and
    d: "\<forall>evs W m' t1.
              (\<forall>te \<in> set evs. snd te = Cleanup \<longrightarrow> fst te \<le> 0 + W * 60 * 1000) \<and>
              fingerprint asciiLower allFail watch555 m' (run asciiLower allFail watch555 W evs ?st') = Some (dedupKey cid groupMessage) \<longrightarrow>
              handleMessage asciiLower allFail t1 watch555 m' (run asciiLower allFail watch555 W evs ?st') =
                (SkipDuplicate, snd (admit asciiLower allFail watch555 m' (run asciiLower allFail watch555 W evs ?st')))"
    by blast
  from a have c: "cid = js ''555''" "body = js ''red win!''"
    by (simp_all only: admit_groupMessage_allFail prod.inject stage.inject)
  have key: "dedupKey cid groupMessage = js ''555:55''"
    unfolding c by (rule dedupKey_groupMessage)
  have f: "fingerprint asciiLower allFail watch555 groupMessage (run asciiLower allFail watch555 10 ?evs ?st') = Some (js ''555:55'')"
    by (simp only: fingerprint_def admit_groupMessage_allFail fst_conv stage.case dedupKey_groupMessage)
  have w: "\<forall>te \<in> set ?evs. snd te = Cleanup \<longrightarrow> fst te \<le> 0 + 10 * 60 * 1000" by simp
  from d [rule_format, of ?evs 10 groupMessage 1000] w f key
  have "fst (handleMessage asciiLower allFail 1000 watch555 groupMessage (run asciiLower allFail watch555 10 ?evs ?st')) = SkipDuplicate"
    by simp
  moreover have "fst (handleMessage asciiLower allFail 0 watch555 groupMessage startState) = Notified False"
    by (simp add: failed_groupMessage)
  moreover have "processedMessages ?st' (js ''555:55'') = Some \<lparr>ts = 0, entry_text = js ''red win!''\<rparr>"
    using k key c by simp
  ultimately show ?thesis by blast
qed

subsection \<open>The migration fallback\<close>

lemma normalizeIds_nonempty: "normalizeIds l \<noteq> [] \<Longrightarrow> l \<noteq> []"
  by (auto simp: normalizeIds_def)

text \<open>With a configuration built by initializeMonitoring the migration fallback is
  never reached.\<close>

lemma migration_fallback_unreachable:
  "monitoredChat (initializeMonitoring lc rc selfId botId) m c \<longleftrightarrow>
   normalizedMonitorIds (initializeMonitoring lc rc selfId botId) = [] \<or>
   (c \<noteq> [] \<and> c \<in> set (normalizedMonitorIds (initializeMonitoring lc rc selfId botId)))"
  using normalizeIds_nonempty [of "parseConfigList (monitorChatIdsRaw rc)"]
  by (auto simp: monitoredChat_def initializeMonitoring_def Let_def)

text \<open>
  Claim C8. The claim (and step 6 of handleMessage, "compatible with group
  migration") say that a chat whose old id is in the allow-list is still monitored.
  Step 5 returns before step 6 whenever the allow-list is not empty. Here the
  allow-list holds the old id \<open>-555\<close>, the message carries the old chat id 555 and
  the new channel id 777, the backend resolves the chat to the channel 777: the
  message is skipped as not monitored.
\<close>

theorem migrated_group_not_monitored:
  "normalizeId (RStr (int_toString 777)) \<notin> set (normalizedMonitorIds watch555) \<and>
   normalizeId (RStr (js ''-'' @ int_toString 555)) \<in> set (normalizedMonitorIds watch555) \<and>
   handleMessage asciiLower (resolves migratedTo) 0 watch555 migratedMessage startState =
     (SkipNotMonitored,
      startState\<lparr>trace := [GetEntity (ByPeer \<lparr>peer_userId = None, peer_chatId = Some 555,
                                                peer_channelId = Some 777\<rparr>)]\<rparr>)"
  by (simp add: handleMessage_def admit_def watch555_value migratedMessage_def textMessage_def
        resolveChat_def perform_def resolves_def migratedTo_def startState_def Let_def
        monitoredChat_def normalizeId_def stripIdPrefix_def is_space_def is_digit_def
        is_line_terminator_def int_toString_def decimal.simps)

end
